theory Spec2Isabelle
  imports Main "HOL-Library.AList"
begin

section \<open>Python values\<close>

text \<open>
  A Python \<open>str\<close> is a sequence of Unicode code points; \<open>ord\<close> gives each one as an
  integer.  The labels of the program are Chinese, so they are written by code point.
\<close>

type_synonym pystr = "int list"

definition ascii :: "string \<Rightarrow> pystr" where
  "ascii s = map of_char s"

text \<open>Exceptions are values.  Every constructor is a subclass of \<open>Exception\<close>.\<close>

datatype py_error =
    NotImplementedError
  | OverflowError
  | ValueError
  | UnicodeDecodeError
  | UnicodeEncodeError
  | JSONDecodeError
  | OSError
  | RuntimeError
  | HTTPException int pystr

text \<open>The values stored in the dictionaries the handlers return.\<close>

datatype pyval =
    VNone
  | VBool bool
  | VInt int
  | VStr pystr
  | VDict "(string \<times> pyval) list"

text \<open>\<open>str(n)\<close> for an integer.\<close>

fun digits10 :: "nat \<Rightarrow> int list" where
  "digits10 n = (if n < 10 then [48 + int n] else digits10 (n div 10) @ [48 + int (n mod 10)])"

declare digits10.simps [simp del]

definition py_str :: "int \<Rightarrow> pystr" where
  "py_str n = (if n < 0 then 45 # digits10 (nat (- n)) else digits10 (nat n))"

text \<open>\<open>"%0wd" % n\<close> for a non-negative \<open>n\<close>: zero padding on the left.\<close>

definition zfill :: "nat \<Rightarrow> pystr \<Rightarrow> pystr" where
  "zfill w s = replicate (w - length s) 48 @ s"

section \<open>\<open>datetime.date\<close>\<close>

text \<open>
  A date is represented by its proleptic Gregorian ordinal (what \<open>toordinal()\<close> returns,
  1 for 0001-01-01); year, month and day are recovered as \<open>datetime._ord2ymd\<close> does.
\<close>

datatype date = Date (toordinal: int)

definition MAXORDINAL :: int where
  "MAXORDINAL = 3652059"

definition DAYS_IN_MONTH :: "int list" where
  "DAYS_IN_MONTH = [-1, 31, 28, 31, 30, 31, 30, 31, 31, 30, 31, 30, 31]"

definition DAYS_BEFORE_MONTH :: "int list" where
  "DAYS_BEFORE_MONTH = [-1, 0, 31, 59, 90, 120, 151, 181, 212, 243, 273, 304, 334]"

definition is_leap :: "int \<Rightarrow> bool" where
  "is_leap year = (year mod 4 = 0 \<and> (year mod 100 \<noteq> 0 \<or> year mod 400 = 0))"

definition days_before_year :: "int \<Rightarrow> int" where
  "days_before_year year = (let y = year - 1 in y * 365 + y div 4 - y div 100 + y div 400)"

definition days_in_month :: "int \<Rightarrow> int \<Rightarrow> int" where
  "days_in_month year month =
     (if month = 2 \<and> is_leap year then 29 else DAYS_IN_MONTH ! nat month)"

definition days_before_month :: "int \<Rightarrow> int \<Rightarrow> int" where
  "days_before_month year month =
     DAYS_BEFORE_MONTH ! nat month + (if month > 2 \<and> is_leap year then 1 else 0)"

definition ymd2ord :: "int \<Rightarrow> int \<Rightarrow> int \<Rightarrow> int" where
  "ymd2ord year month day = days_before_year year + days_before_month year month + day"

definition ord2ymd :: "int \<Rightarrow> int \<times> int \<times> int" where
  "ord2ymd n0 =
     (let n = n0 - 1;
          n400 = n div 146097; n = n mod 146097;
          year = n400 * 400 + 1;
          n100 = n div 36524; n = n mod 36524;
          n4 = n div 1461; n = n mod 1461;
          n1 = n div 365; n = n mod 365;
          year = year + n100 * 100 + n4 * 4 + n1
      in if n1 = 4 \<or> n100 = 4 then (year - 1, 12, 31)
         else
           let leapyear = (n1 = 3 \<and> (n4 \<noteq> 24 \<or> n100 = 3));
               month = (n + 50) div 32;
               preceding = DAYS_BEFORE_MONTH ! nat month
                             + (if month > 2 \<and> leapyear then 1 else 0)
           in if preceding > n
              then (let month' = month - 1;
                        preceding' = preceding - (DAYS_IN_MONTH ! nat month'
                                       + (if month' = 2 \<and> leapyear then 1 else 0))
                    in (year, month', n - preceding' + 1))
              else (year, month, n - preceding + 1))"

text \<open>The constructor \<open>date(year, month, day)\<close> checks its fields.\<close>

definition mk_date :: "int \<Rightarrow> int \<Rightarrow> int \<Rightarrow> py_error + date" where
  "mk_date year month day =
     (if \<not> (1 \<le> year \<and> year \<le> 9999) then Inl ValueError
      else if \<not> (1 \<le> month \<and> month \<le> 12) then Inl ValueError
      else if \<not> (1 \<le> day \<and> day \<le> days_in_month year month) then Inl ValueError
      else Inr (Date (ymd2ord year month day)))"

definition year_of :: "date \<Rightarrow> int" where
  "year_of d = fst (ord2ymd (toordinal d))"

text \<open>\<open>d.weekday()\<close>: Monday is 0.\<close>

definition weekday :: "date \<Rightarrow> int" where
  "weekday d = (toordinal d + 6) mod 7"

text \<open>\<open>d.isoformat()\<close> is \<open>"%04d-%02d-%02d" % (year, month, day)\<close>.\<close>

definition isoformat :: "date \<Rightarrow> pystr" where
  "isoformat d =
     (case ord2ymd (toordinal d) of (y, m, dd) \<Rightarrow>
        zfill 4 (py_str y) @ [45] @ zfill 2 (py_str m) @ [45] @ zfill 2 (py_str dd))"

text \<open>
  \<open>d + timedelta(days=n)\<close> raises \<open>OverflowError\<close> when the result leaves the range of
  the type (after 9999-12-31); a \<open>timedelta\<close> too large to build raises the same error.
\<close>

definition date_add :: "date \<Rightarrow> int \<Rightarrow> py_error + date" where
  "date_add d n =
     (let k = toordinal d + n
      in if 0 < k \<and> k \<le> MAXORDINAL then Inr (Date k) else Inl OverflowError)"

text \<open>\<open>(a - b).days\<close>\<close>

definition days_between :: "date \<Rightarrow> date \<Rightarrow> int" where
  "days_between a b = toordinal a - toordinal b"

section \<open>Constants of the program\<close>

definition WEEKDAY_NAMES :: "pystr list" where
  "WEEKDAY_NAMES =
     [[21608, 19968], [21608, 20108], [21608, 19977], [21608, 22235],
      [21608, 20116], [21608, 20845], [21608, 26085]]"

definition LABEL_WEEKEND :: pystr where
  "LABEL_WEEKEND = [21608, 26411]"

definition LABEL_STATUTORY :: pystr where
  "LABEL_STATUTORY = [27861, 23450, 33410, 20551, 26085]"

definition LABEL_MAKEUP :: pystr where
  "LABEL_MAKEUP = [35843, 20241, 34917, 29677]"

definition LABEL_REST :: pystr where
  "LABEL_REST = [20241, 24687, 26085]"

definition LABEL_NORMAL :: pystr where
  "LABEL_NORMAL = [27491, 24120, 24037, 20316, 26085]"

definition WARNING_TEXT :: pystr where
  "WARNING_TEXT =
     [25968, 25454, 28304, 23384, 22312, 24046, 24322, 65292, 35831, 20197,
      23448, 26041, 36890, 30693, 20026, 20934]"

section \<open>The primary calendar source\<close>

text \<open>
  The two functions imported from \<open>chinese_calendar\<close> are parameters.  Either may raise;
  the library raises \<open>NotImplementedError\<close> for a year it has no table for.
\<close>

record primary_source =
  is_workday :: "date \<Rightarrow> py_error + bool"
  get_holiday_detail :: "date \<Rightarrow> py_error + bool \<times> pystr option"

text \<open>
  What the two functions of the library compute.  The library holds two tables from dates
  to holiday names, the worked days (days off by the week that are worked in exchange for
  a holiday) and the holidays, and has data for some years only.  Both functions first
  check that the year of the date is supported.  \<open>is_workday\<close> is true on a date of the
  table of worked days, and on a day from Monday to Friday that is not in the table of
  holidays.  \<open>get_holiday_detail\<close> answers \<open>(False, name)\<close> on a date of the table of
  worked days, \<open>(True, name)\<close> on a date of the table of holidays, and
  \<open>(weekday > 4, None)\<close> on any other date.
\<close>

record chinese_calendar =
  lib_supported :: "date \<Rightarrow> bool"
  lib_workdays :: "(date \<times> pystr) list"
  lib_holidays :: "(date \<times> pystr) list"

definition lib_is_workday :: "chinese_calendar \<Rightarrow> date \<Rightarrow> py_error + bool" where
  "lib_is_workday lib d =
     (if \<not> lib_supported lib d then Inl NotImplementedError
      else Inr (map_of (lib_workdays lib) d \<noteq> None
                \<or> (weekday d \<le> 4 \<and> map_of (lib_holidays lib) d = None)))"

definition lib_get_holiday_detail ::
  "chinese_calendar \<Rightarrow> date \<Rightarrow> py_error + bool \<times> pystr option" where
  "lib_get_holiday_detail lib d =
     (if \<not> lib_supported lib d then Inl NotImplementedError
      else (case map_of (lib_workdays lib) d of
              Some n \<Rightarrow> Inr (False, Some n)
            | None \<Rightarrow>
                (case map_of (lib_holidays lib) d of
                   Some n \<Rightarrow> Inr (True, Some n)
                 | None \<Rightarrow> Inr (weekday d > 4, None))))"

definition library_source :: "chinese_calendar \<Rightarrow> primary_source" where
  "library_source lib =
     \<lparr>is_workday = lib_is_workday lib, get_holiday_detail = lib_get_holiday_detail lib\<rparr>"

text \<open>Truth value of an optional string: \<open>None\<close> and \<open>""\<close> are false.\<close>

definition truthy :: "pystr option \<Rightarrow> bool" where
  "truthy n = (case n of None \<Rightarrow> False | Some s \<Rightarrow> s \<noteq> [])"

text \<open>\<open>name or default\<close>\<close>

definition py_or :: "pystr option \<Rightarrow> pystr \<Rightarrow> pystr" where
  "py_or n dflt = (case n of None \<Rightarrow> dflt | Some s \<Rightarrow> if s \<noteq> [] then s else dflt)"

section \<open>\<open>find_next_rest_day\<close>\<close>

text \<open>
  The dictionary returned for a rest day \<open>d\<close>; \<open>today\<close> is what \<open>date.today()\<close> returns.
\<close>

definition rest_day_dict :: "date \<Rightarrow> date \<Rightarrow> bool \<Rightarrow> pystr option \<Rightarrow> (string \<times> pyval) list" where
  "rest_day_dict today d on_holiday holiday_name =
     [(''date'', VStr (isoformat d)),
      (''weekday'', VStr (WEEKDAY_NAMES ! nat (weekday d))),
      (''detail'', VStr (if on_holiday \<and> truthy holiday_name
                          then py_or holiday_name LABEL_WEEKEND else LABEL_WEEKEND)),
      (''days_from_now'', VInt (days_between d today))]"

text \<open>
  The loop \<open>for i in range(1, max_days + 1)\<close>: \<open>i\<close> is the current index and the last
  argument counts the iterations left.  The addition is outside the \<open>try\<close>, the two
  calls of the source are inside it, and only \<open>NotImplementedError\<close> is caught.
\<close>

fun rest_day_loop ::
  "primary_source \<Rightarrow> date \<Rightarrow> date \<Rightarrow> int \<Rightarrow> nat \<Rightarrow> py_error + (string \<times> pyval) list option" where
  "rest_day_loop src today from_date i 0 = Inr None"
| "rest_day_loop src today from_date i (Suc n) =
     (case date_add from_date i of
        Inl e \<Rightarrow> Inl e
      | Inr d \<Rightarrow>
          (case is_workday src d of
             Inl e \<Rightarrow> (if e = NotImplementedError then Inr None else Inl e)
           | Inr w \<Rightarrow>
               if \<not> w then
                 (case get_holiday_detail src d of
                    Inl e \<Rightarrow> (if e = NotImplementedError then Inr None else Inl e)
                  | Inr (on_holiday, holiday_name) \<Rightarrow>
                      Inr (Some (rest_day_dict today d on_holiday holiday_name)))
               else rest_day_loop src today from_date (i + 1) n))"

definition find_next_rest_day ::
  "primary_source \<Rightarrow> date \<Rightarrow> date \<Rightarrow> int \<Rightarrow> py_error + (string \<times> pyval) list option" where
  "find_next_rest_day src today from_date max_days =
     rest_day_loop src today from_date 1 (nat max_days)"

section \<open>The secondary cache store\<close>

text \<open>
  A dictionary is an association list: \<open>AList.update\<close> replaces the value of a key in
  place and appends a new key at the end, as assignment to a Python \<open>dict\<close> does.
  The secondary index maps \<open>str(year)\<close> to the year's dictionary from date string to
  holiday name.
\<close>

type_synonym holidays = "(pystr \<times> pystr) list"

type_synonym cache = "(pystr \<times> holidays) list"

text \<open>\<open>d.get(k, {})\<close>\<close>

definition dict_get :: "cache \<Rightarrow> pystr \<Rightarrow> holidays" where
  "dict_get c k = (case map_of c k of None \<Rightarrow> [] | Some v \<Rightarrow> v)"

text \<open>\<open>k in d\<close>\<close>

definition dict_in :: "pystr \<Rightarrow> holidays \<Rightarrow> bool" where
  "dict_in k d = (k \<in> set (map fst d))"

text \<open>
  \<open>json.loads\<close> is a parameter: it may raise on a text that is not a JSON document.
\<close>

record json_codec =
  json_loads :: "pystr \<Rightarrow> py_error + cache"

text \<open>
  \<open>json.dumps(data, ensure_ascii=False)\<close> for an index: the entries in the order of the
  dictionary, separated by \<open>", "\<close>, key and value by \<open>": "\<close>.  In a string only the
  backslash, the double quote and the characters below 32 are escaped; every other
  character is written as it is.
\<close>

definition hex_digit :: "int \<Rightarrow> int" where
  "hex_digit n = (if n < 10 then 48 + n else 87 + n)"

definition escape_char :: "int \<Rightarrow> pystr" where
  "escape_char c =
     (if c = 92 then [92, 92]
      else if c = 34 then [92, 34]
      else if c = 8 then [92, 98]
      else if c = 12 then [92, 102]
      else if c = 10 then [92, 110]
      else if c = 13 then [92, 114]
      else if c = 9 then [92, 116]
      else if 0 \<le> c \<and> c < 32 then [92, 117, 48, 48, hex_digit (c div 16), hex_digit (c mod 16)]
      else [c])"

definition dump_str :: "pystr \<Rightarrow> pystr" where
  "dump_str t = [34] @ concat (map escape_char t) @ [34]"

fun join_entries :: "pystr list \<Rightarrow> pystr" where
  "join_entries [] = []"
| "join_entries [x] = x"
| "join_entries (x # y # xs) = x @ [44, 32] @ join_entries (y # xs)"

definition dump_holidays :: "holidays \<Rightarrow> pystr" where
  "dump_holidays h =
     [123] @ join_entries (map (\<lambda>(k, v). dump_str k @ [58, 32] @ dump_str v) h) @ [125]"

definition json_dumps :: "cache \<Rightarrow> pystr" where
  "json_dumps c =
     [123] @ join_entries (map (\<lambda>(k, v). dump_str k @ [58, 32] @ dump_holidays v) c) @ [125]"

text \<open>
  A text can be encoded as UTF-8 when it holds no surrogate (a lone code point from
  U+D800 to U+DFFF); encoding any other text raises \<open>UnicodeEncodeError\<close>.
\<close>

definition utf8_encodable :: "pystr \<Rightarrow> bool" where
  "utf8_encodable t = list_all (\<lambda>c. \<not> (55296 \<le> c \<and> c \<le> 57343)) t"

text \<open>
  The state of \<open>CACHE_FILE\<close> as the program sees it: there is no file; the test
  \<open>exists()\<close> itself raises (\<open>pathlib\<close> re-raises an \<open>OSError\<close> of \<open>stat\<close> other than
  a missing path, such as a permission denied on the directory); there is a file that
  cannot be opened for reading; there is a file whose bytes are not UTF-8; there is a
  file with a text.
\<close>

datatype cache_file =
    Absent
  | Inaccessible py_error
  | Unreadable py_error
  | Undecodable
  | Content pystr

definition file_exists :: "cache_file \<Rightarrow> py_error + bool" where
  "file_exists f =
     (case f of Absent \<Rightarrow> Inr False | Inaccessible e \<Rightarrow> Inl e | _ \<Rightarrow> Inr True)"

definition read_text :: "cache_file \<Rightarrow> py_error + pystr" where
  "read_text f =
     (case f of
        Absent \<Rightarrow> Inl OSError
      | Inaccessible e \<Rightarrow> Inl e
      | Unreadable e \<Rightarrow> Inl e
      | Undecodable \<Rightarrow> Inl UnicodeDecodeError
      | Content t \<Rightarrow> Inr t)"

text \<open>
  \<open>load_cache\<close>: the test \<open>CACHE_FILE.exists()\<close> is outside the \<open>try\<close>, so what it
  raises reaches the caller.  The \<open>try\<close> covers the reading and the parsing, and
  \<open>except Exception\<close> catches every error; the handler only logs, and control falls to
  \<open>return {}\<close>.
\<close>

definition load_cache :: "json_codec \<Rightarrow> cache_file \<Rightarrow> py_error + cache" where
  "load_cache codec f =
     (case file_exists f of
        Inl e \<Rightarrow> Inl e
      | Inr found \<Rightarrow>
          if found then
            (case read_text f of
               Inl e \<Rightarrow> Inr []
             | Inr t \<Rightarrow> (case json_loads codec t of Inl e \<Rightarrow> Inr [] | Inr c \<Rightarrow> Inr c))
          else Inr [])"

text \<open>
  The storage as \<open>save_cache\<close> meets it: the state of the file, and the error that
  creating the directory or opening the file for writing raises, if any.
\<close>

record storage =
  stored :: cache_file
  write_error :: "py_error option"

text \<open>
  A file opened for writing is emptied and then holds what is written.  Writing changes
  neither the permission to read the file nor the outcome of \<open>exists()\<close>.
\<close>

definition overwrite :: "pystr \<Rightarrow> cache_file \<Rightarrow> cache_file" where
  "overwrite t f =
     (case f of
        Inaccessible e \<Rightarrow> Inaccessible e
      | Unreadable e \<Rightarrow> Unreadable e
      | _ \<Rightarrow> Content t)"

text \<open>
  \<open>save_cache\<close> returns the new storage and the exception raised, if any.  \<open>mkdir\<close> and
  the opening of the file come first and leave the storage as it was when they raise.
  \<open>write_text\<close> opens the file, which empties it, and then encodes the text: when the
  text cannot be encoded, \<open>UnicodeEncodeError\<close> is raised and the file stays empty.
\<close>

definition save_cache :: "cache \<Rightarrow> storage \<Rightarrow> storage \<times> py_error option" where
  "save_cache data st =
     (case write_error st of
        Some e \<Rightarrow> (st, Some e)
      | None \<Rightarrow>
          (let t = json_dumps data
           in if utf8_encodable t
              then (st\<lparr>stored := overwrite t (stored st)\<rparr>, None)
              else (st\<lparr>stored := overwrite [] (stored st)\<rparr>, Some UnicodeEncodeError)))"

section \<open>The secondary source fetcher\<close>

text \<open>
  What the network gives for one year: the request raises, or a response arrives with a
  status code and a body.  The body is not JSON (\<open>resp.json()\<close> raises), or a list of
  items; \<open>BadItem\<close> is an item on which \<open>result[item["date"]] = item["localName"]\<close>
  raises.
\<close>

datatype item = Item pystr pystr | BadItem

datatype response = RequestFailed | Response int "item list option"

text \<open>The \<open>for\<close> loop inside the \<open>try\<close>: an exception leaves it with the entries stored so far.\<close>

fun collect_items :: "item list \<Rightarrow> holidays \<Rightarrow> holidays" where
  "collect_items [] result = result"
| "collect_items (Item d n # items) result = collect_items items (AList.update d n result)"
| "collect_items (BadItem # items) result = result"

definition fetch_nager_holidays :: "(int \<Rightarrow> response) \<Rightarrow> int \<Rightarrow> holidays" where
  "fetch_nager_holidays net year =
     (case net year of
        RequestFailed \<Rightarrow> []
      | Response status_code body \<Rightarrow>
          if status_code = 200 then
            (case body of None \<Rightarrow> [] | Some items \<Rightarrow> collect_items items [])
          else [])"

section \<open>\<open>update_auxiliary_cache\<close>\<close>

text \<open>One iteration of \<open>for year in [current_year, current_year + 1]\<close>.\<close>

definition update_year :: "(int \<Rightarrow> response) \<Rightarrow> cache \<Rightarrow> int \<Rightarrow> cache" where
  "update_year net c year =
     (let holidays = fetch_nager_holidays net year
      in if holidays \<noteq> [] then AList.update (py_str year) holidays c else c)"

text \<open>The data handed to \<open>save_cache\<close>.\<close>

definition refreshed_cache :: "(int \<Rightarrow> response) \<Rightarrow> date \<Rightarrow> cache \<Rightarrow> cache" where
  "refreshed_cache net today c =
     (let current_year = year_of today
      in foldl (update_year net) c [current_year, current_year + 1])"

text \<open>The job returns the new storage and the exception it ends with, if any.\<close>

definition update_auxiliary_cache ::
  "json_codec \<Rightarrow> (int \<Rightarrow> response) \<Rightarrow> date \<Rightarrow> storage \<Rightarrow> storage \<times> py_error option" where
  "update_auxiliary_cache codec net today st =
     (case load_cache codec (stored st) of
        Inl e \<Rightarrow> (st, Some e)
      | Inr c \<Rightarrow> save_cache (refreshed_cache net today c) st)"

section \<open>\<open>get_date_status\<close>\<close>

definition detail_of :: "bool \<Rightarrow> bool \<Rightarrow> pystr option \<Rightarrow> int \<Rightarrow> pystr" where
  "detail_of is_work on_holiday holiday_name wd =
     (if on_holiday then py_or holiday_name LABEL_STATUTORY
      else if is_work \<and> wd \<ge> 5 then LABEL_MAKEUP
      else if \<not> is_work \<and> wd < 5 then LABEL_REST
      else if is_work then LABEL_NORMAL
      else LABEL_WEEKEND)"

definition warning_of :: "bool \<Rightarrow> holidays \<Rightarrow> pystr \<Rightarrow> pyval" where
  "warning_of on_holiday year_cache date_str =
     (if year_cache \<noteq> [] then
        (let in_nager = dict_in date_str year_cache
         in if on_holiday \<and> \<not> in_nager then VStr WARNING_TEXT
            else if \<not> on_holiday \<and> in_nager then VStr WARNING_TEXT
            else VNone)
      else VNone)"

text \<open>\<open>None\<close> as a dictionary value\<close>

definition opt_dict :: "(string \<times> pyval) list option \<Rightarrow> pyval" where
  "opt_dict r = (case r of None \<Rightarrow> VNone | Some d \<Rightarrow> VDict d)"

definition get_date_status ::
  "json_codec \<Rightarrow> primary_source \<Rightarrow> cache_file \<Rightarrow> date \<Rightarrow> date
     \<Rightarrow> py_error + (string \<times> pyval) list" where
  "get_date_status codec src f today target_date =
     (case is_workday src target_date of
        Inl e \<Rightarrow> Inl e
      | Inr is_work \<Rightarrow>
     (case get_holiday_detail src target_date of
        Inl e \<Rightarrow> Inl e
      | Inr (on_holiday, holiday_name) \<Rightarrow>
     (let wd = weekday target_date;
          weekday_name = WEEKDAY_NAMES ! nat wd;
          detail = detail_of is_work on_holiday holiday_name wd
      in
     (case load_cache codec f of
        Inl e \<Rightarrow> Inl e
      | Inr c \<Rightarrow>
     (let year_cache = dict_get c (py_str (year_of target_date));
          date_str = isoformat target_date;
          warning = warning_of on_holiday year_cache date_str
      in
     (case find_next_rest_day src today target_date 30 of
        Inl e \<Rightarrow> Inl e
      | Inr nrd \<Rightarrow>
          Inr ([(''date'', VStr date_str),
                (''weekday'', VStr weekday_name),
                (''is_workday'', VBool is_work),
                (''detail'', VStr detail),
                (''next_rest_day'', opt_dict nrd),
                (''warning'', warning)]
               @ (if on_holiday \<and> truthy holiday_name
                  then [(''holiday_name'', VStr (py_or holiday_name []))] else []))))))))"

section \<open>\<open>datetime.strptime\<close>\<close>

text \<open>
  Two things of the Python runtime that the program does not fix are parameters.
  \<open>nd_digit\<close> is the table of the decimal digits of Unicode outside ASCII, with their
  values: the pattern \<open>\d\<close> matches them and \<open>int\<close> converts them.
  \<open>strptime_flags\<close> says what \<open>strptime\<close> does with a flag between \<open>%\<close> and the
  directive letter, as in \<open>%-m\<close>: older versions of CPython reject the format
  (\<open>'-' is a bad directive\<close>), newer ones skip the flag.
\<close>

record runtime =
  nd_digit :: "int \<Rightarrow> int option"
  strptime_flags :: bool

definition py_digit :: "runtime \<Rightarrow> int \<Rightarrow> int option" where
  "py_digit rt c =
     (if 48 \<le> c \<and> c \<le> 57 then Some (c - 48)
      else if c < 128 then None
      else nd_digit rt c)"

text \<open>
  The format is compiled to a pattern.  Of the directives only \<open>%Y\<close>, \<open>%m\<close> and \<open>%d\<close>
  are modelled, the ones the formats of \<open>check_date\<close> use; these formats hold no
  white space, no character special to regular expressions and no cased letter outside
  a directive, so every other character stands for itself.
  The second argument of \<open>compile_format\<close> says whether a \<open>%\<close> has just been read.
\<close>

datatype tok = Lit int | DirY | DirM | DirD

definition cons_tok :: "tok \<Rightarrow> py_error + tok list \<Rightarrow> py_error + tok list" where
  "cons_tok t r = (case r of Inl e \<Rightarrow> Inl e | Inr ts \<Rightarrow> Inr (t # ts))"

fun compile_format :: "bool \<Rightarrow> bool \<Rightarrow> pystr \<Rightarrow> py_error + tok list" where
  "compile_format fl False [] = Inr []"
| "compile_format fl False (c # cs) =
     (if c = 37 then compile_format fl True cs
      else cons_tok (Lit c) (compile_format fl False cs))"
| "compile_format fl True [] = Inl ValueError"
| "compile_format fl True (c # cs) =
     (if c = 89 then cons_tok DirY (compile_format fl False cs)
      else if c = 109 then cons_tok DirM (compile_format fl False cs)
      else if c = 100 then cons_tok DirD (compile_format fl False cs)
      else if fl \<and> c \<in> {45, 95, 48, 94, 35} then compile_format fl True cs
      else Inl ValueError)"

text \<open>
  The alternatives of each directive, in the order of the regular expression, each with
  the value read and the rest of the text:
  \<open>%Y\<close> is \<open>\d\d\d\d\<close>, \<open>%m\<close> is \<open>1[0-2]|0[1-9]|[1-9]\<close>, and
  \<open>%d\<close> is \<open>3[0-1]|[1-2]\d|0[1-9]|[1-9]| [1-9]\<close>.
\<close>

definition alts_Y :: "runtime \<Rightarrow> pystr \<Rightarrow> (int \<times> pystr) list" where
  "alts_Y rt s =
     (case s of
        a # b # c # d # r \<Rightarrow>
          (case (py_digit rt a, py_digit rt b, py_digit rt c, py_digit rt d) of
             (Some a', Some b', Some c', Some d') \<Rightarrow>
               [(((a' * 10 + b') * 10 + c') * 10 + d', r)]
           | _ \<Rightarrow> [])
      | _ \<Rightarrow> [])"

definition alts_m :: "pystr \<Rightarrow> (int \<times> pystr) list" where
  "alts_m s =
     (case s of a # b # r \<Rightarrow> if a = 49 \<and> 48 \<le> b \<and> b \<le> 50 then [(10 + (b - 48), r)] else []
              | _ \<Rightarrow> [])
     @ (case s of a # b # r \<Rightarrow> if a = 48 \<and> 49 \<le> b \<and> b \<le> 57 then [(b - 48, r)] else []
                | _ \<Rightarrow> [])
     @ (case s of a # r \<Rightarrow> if 49 \<le> a \<and> a \<le> 57 then [(a - 48, r)] else []
                | _ \<Rightarrow> [])"

definition alts_d :: "runtime \<Rightarrow> pystr \<Rightarrow> (int \<times> pystr) list" where
  "alts_d rt s =
     (case s of a # b # r \<Rightarrow> if a = 51 \<and> 48 \<le> b \<and> b \<le> 49 then [(30 + (b - 48), r)] else []
              | _ \<Rightarrow> [])
     @ (case s of a # b # r \<Rightarrow>
          if 49 \<le> a \<and> a \<le> 50
          then (case py_digit rt b of Some v \<Rightarrow> [((a - 48) * 10 + v, r)] | None \<Rightarrow> [])
          else []
                | _ \<Rightarrow> [])
     @ (case s of a # b # r \<Rightarrow> if a = 48 \<and> 49 \<le> b \<and> b \<le> 57 then [(b - 48, r)] else []
                | _ \<Rightarrow> [])
     @ (case s of a # r \<Rightarrow> if 49 \<le> a \<and> a \<le> 57 then [(a - 48, r)] else []
                | _ \<Rightarrow> [])
     @ (case s of a # b # r \<Rightarrow> if a = 32 \<and> 49 \<le> b \<and> b \<le> 57 then [(b - 48, r)] else []
                | _ \<Rightarrow> [])"

text \<open>
  All the ways the pattern matches a prefix of the text, in the order a backtracking
  matcher finds them; \<open>re.match\<close> returns the first.  The triple holds year, month and
  day as read so far.
\<close>

fun re_match :: "runtime \<Rightarrow> tok list \<Rightarrow> pystr \<Rightarrow> int \<times> int \<times> int
                   \<Rightarrow> ((int \<times> int \<times> int) \<times> pystr) list" where
  "re_match rt [] s ymd = [(ymd, s)]"
| "re_match rt (Lit c # ts) s ymd =
     (case s of [] \<Rightarrow> [] | x # xs \<Rightarrow> if x = c then re_match rt ts xs ymd else [])"
| "re_match rt (DirY # ts) s ymd =
     concat (map (\<lambda>(v, r). re_match rt ts r (v, fst (snd ymd), snd (snd ymd))) (alts_Y rt s))"
| "re_match rt (DirM # ts) s ymd =
     concat (map (\<lambda>(v, r). re_match rt ts r (fst ymd, v, snd (snd ymd))) (alts_m s))"
| "re_match rt (DirD # ts) s ymd =
     concat (map (\<lambda>(v, r). re_match rt ts r (fst ymd, fst (snd ymd), v)) (alts_d rt s))"

text \<open>
  \<open>datetime.strptime(s, fmt).date()\<close>: a format that does not compile, a text the
  pattern does not match, text left after the match and field values that are no date
  all raise \<open>ValueError\<close>.  The fields start at 1900, 1, 1.
\<close>

definition match_tokens :: "runtime \<Rightarrow> tok list \<Rightarrow> pystr \<Rightarrow> py_error + date" where
  "match_tokens rt toks s =
     (case re_match rt toks s (1900, 1, 1) of
        [] \<Rightarrow> Inl ValueError
      | ((y, m, d), rest) # _ \<Rightarrow>
          if rest \<noteq> [] then Inl ValueError else mk_date y m d)"

definition strptime :: "runtime \<Rightarrow> pystr \<Rightarrow> pystr \<Rightarrow> py_error + date" where
  "strptime rt s fmt =
     (case compile_format (strptime_flags rt) False fmt of
        Inl e \<Rightarrow> Inl e
      | Inr toks \<Rightarrow> match_tokens rt toks s)"

section \<open>\<open>check_date\<close>\<close>

definition formats :: "pystr list" where
  "formats =
     [ascii ''%Y-%m-%d'', ascii ''%Y-%-m-%-d'',
      ascii ''%Y_%m_%d'', ascii ''%Y_%-m_%-d'',
      ascii ''%Y%m%d'',
      ascii ''%Y'' @ [24180] @ ascii ''%m'' @ [26376] @ ascii ''%d'' @ [26085],
      ascii ''%Y'' @ [24180] @ ascii ''%-m'' @ [26376] @ ascii ''%-d'' @ [26085]]"

definition FORMAT_ERROR :: pystr where
  "FORMAT_ERROR =
     [26085, 26399, 26684, 24335, 38169, 35823, 65292, 25903, 25345, 26684, 24335, 65306]
     @ ascii ''2026-02-25'' @ [12289] @ ascii ''2026_02_25'' @ [12289]
     @ ascii ''20260225'' @ [12289]
     @ ascii ''2026'' @ [24180] @ ascii ''02'' @ [26376] @ ascii ''25'' @ [26085, 31561]"

definition unsupported_year_error :: "int \<Rightarrow> pystr" where
  "unsupported_year_error y =
     [26242, 19981, 25903, 25345, 26597, 35810, 32] @ py_str y
     @ [32, 24180, 30340, 25968, 25454, 65292] @ ascii ''chinesecalendar ''
     @ [24211, 23578, 26410, 25910, 24405]"

text \<open>
  The loop over the formats: the first format that parses ends it, \<open>ValueError\<close> moves
  to the next format, and \<open>d\<close> stays \<open>None\<close> when no format is left.
\<close>

fun parse_formats :: "runtime \<Rightarrow> pystr \<Rightarrow> pystr list \<Rightarrow> py_error + date option" where
  "parse_formats rt target [] = Inr None"
| "parse_formats rt target (fmt # fmts) =
     (case strptime rt target fmt of
        Inr d \<Rightarrow> Inr (Some d)
      | Inl e \<Rightarrow> if e = ValueError then parse_formats rt target fmts else Inl e)"

text \<open>The handler \<open>except NotImplementedError\<close> of \<open>check_date\<close>.\<close>

definition unsupported :: "date \<Rightarrow> py_error \<Rightarrow> py_error" where
  "unsupported d e =
     (if e = NotImplementedError
      then HTTPException 400 (unsupported_year_error (year_of d)) else e)"

definition check_date ::
  "json_codec \<Rightarrow> runtime \<Rightarrow> primary_source \<Rightarrow> cache_file \<Rightarrow> date \<Rightarrow> pystr
     \<Rightarrow> py_error + (string \<times> pyval) list" where
  "check_date codec rt src f today target_date =
     (case parse_formats rt target_date formats of
        Inl e \<Rightarrow> Inl e
      | Inr None \<Rightarrow> Inl (HTTPException 400 FORMAT_ERROR)
      | Inr (Some d) \<Rightarrow>
          (case get_date_status codec src f today d of
             Inl e \<Rightarrow> Inl (unsupported d e)
           | Inr status \<Rightarrow>
               (case find_next_rest_day src today today 30 of
                  Inl e \<Rightarrow> Inl (unsupported d e)
                | Inr nrd \<Rightarrow>
                    Inr [(''date'', VDict (AList.delete ''next_rest_day'' status)),
                         (''next_rest_day'', opt_dict nrd)])))"

section \<open>The date formats of the specification\<close>

text \<open>
  How the four formats write the date \<open>y\<close>, \<open>m\<close>, \<open>d\<close>: the year with four digits,
  the month and the day with two digits, or with one when they are below ten and not
  padded.  The flags say whether the month and the day are padded.
\<close>

datatype style = Dashes | Underscores | Compact | Chinese

definition render_year :: "int \<Rightarrow> pystr" where
  "render_year y = [48 + y div 1000, 48 + y div 100 mod 10, 48 + y div 10 mod 10, 48 + y mod 10]"

definition render_field :: "bool \<Rightarrow> int \<Rightarrow> pystr" where
  "render_field padded n =
     (if padded \<or> 10 \<le> n then [48 + n div 10, 48 + n mod 10] else [48 + n])"

definition render_date :: "style \<Rightarrow> bool \<Rightarrow> bool \<Rightarrow> int \<Rightarrow> int \<Rightarrow> int \<Rightarrow> pystr" where
  "render_date sty pm pd y m d =
     (case sty of
        Dashes \<Rightarrow> render_year y @ [45] @ render_field pm m @ [45] @ render_field pd d
      | Underscores \<Rightarrow> render_year y @ [95] @ render_field pm m @ [95] @ render_field pd d
      | Compact \<Rightarrow> render_year y @ render_field pm m @ render_field pd d
      | Chinese \<Rightarrow> render_year y @ [24180] @ render_field pm m @ [26376]
                     @ render_field pd d @ [26085])"

definition valid_ymd :: "int \<Rightarrow> int \<Rightarrow> int \<Rightarrow> bool" where
  "valid_ymd y m d =
     (1 \<le> y \<and> y \<le> 9999 \<and> 1 \<le> m \<and> m \<le> 12 \<and> 1 \<le> d \<and> d \<le> days_in_month y m)"

text \<open>A runtime with no digit outside ASCII, whose \<open>strptime\<close> rejects a flag.\<close>

definition plain_runtime :: runtime where
  "plain_runtime = \<lparr>nd_digit = (\<lambda>c. None), strptime_flags = False\<rparr>"

section \<open>Sample inputs\<close>

text \<open>
  The library with data for 2026 only: the Spring Festival holiday from 15 to 23
  February, and the Saturdays 14 and 28 February worked in exchange.  Ordinal 739617 is
  2026-01-01 and 739981 is 2026-12-31.
\<close>

definition tables_2026 :: chinese_calendar where
  "tables_2026 =
     \<lparr>lib_supported = (\<lambda>d. 739617 \<le> toordinal d \<and> toordinal d \<le> 739981),
      lib_workdays = [(Date 739661, ascii ''Spring Festival''),
                      (Date 739675, ascii ''Spring Festival'')],
      lib_holidays = map (\<lambda>k. (Date k, ascii ''Spring Festival'')) [739662 .. 739670]\<rparr>"

definition calendar_2026 :: primary_source where
  "calendar_2026 = library_source tables_2026"

text \<open>
  A secondary index with one holiday in 2026, one with an entry for 2025 too, and one
  whose holiday name is a lone surrogate.  The last is what \<open>json.loads\<close> returns on
  the document \<open>{"2026": {"2026-01-01": "\ud800"}}\<close>, where the surrogate is written
  as an escape.
\<close>

definition sample_cache :: cache where
  "sample_cache = [(ascii ''2026'', [(ascii ''2026-02-17'', [26149, 33410])])]"

definition two_year_cache :: cache where
  "two_year_cache =
     [(ascii ''2025'', [(ascii ''2025-10-01'', [22269, 24198, 33410])]),
      (ascii ''2026'', [(ascii ''2026-02-17'', [26149, 33410])])]"

definition surrogate_cache :: cache where
  "surrogate_cache = [(ascii ''2026'', [(ascii ''2026-01-01'', [55296])])]"

definition surrogate_document :: pystr where
  "surrogate_document =
     [123, 34] @ ascii ''2026'' @ [34, 58, 32, 123, 34] @ ascii ''2026-01-01''
     @ [34, 58, 32, 34, 92] @ ascii ''ud800'' @ [34, 125, 125]"

text \<open>
  What \<open>json.loads\<close> does on the documents of the samples: it reads back what
  \<open>json.dumps\<close> wrote for the empty index and for the first two sample indexes, it reads
  the document with the escape, and it raises on any other text of the samples, among
  them the empty text.
\<close>

definition sample_documents :: "(pystr \<times> cache) list" where
  "sample_documents =
     [(json_dumps [], []),
      (json_dumps sample_cache, sample_cache),
      (json_dumps two_year_cache, two_year_cache),
      (surrogate_document, surrogate_cache)]"

definition sample_loads :: "pystr \<Rightarrow> py_error + cache" where
  "sample_loads t =
     (case map_of sample_documents t of
        None \<Rightarrow> Inl JSONDecodeError
      | Some c \<Rightarrow> Inr c)"

definition sample_codec :: json_codec where
  "sample_codec = \<lparr>json_loads = sample_loads\<rparr>"

definition sample_file :: cache_file where
  "sample_file = Content (json_dumps sample_cache)"

text \<open>
  A network on which the request for 2026 is answered with status 500, and the request
  for 2027 with a list of one good item followed by one that lacks a key.
\<close>

definition sample_net :: "int \<Rightarrow> response" where
  "sample_net year =
     (if year = 2027
      then Response 200 (Some [Item (ascii ''2027-01-01'') [20803, 26086], BadItem])
      else if year = 2026 then Response 500 None
      else RequestFailed)"

text \<open>
  A network on which the request for 2026 is answered with one holiday whose local name
  is a lone surrogate (\<open>"localName": "\ud800"\<close> in the response), and the request for
  any other year fails.
\<close>

definition surrogate_net :: "int \<Rightarrow> response" where
  "surrogate_net year =
     (if year = 2026 then Response 200 (Some [Item (ascii ''2026-01-01'') [55296]])
      else RequestFailed)"

section \<open>Reading a verdict\<close>

text \<open>The value of a key in the dictionary a call returned; nothing when the call raised.\<close>

definition field :: "string \<Rightarrow> py_error + (string \<times> pyval) list \<Rightarrow> pyval option" where
  "field k res = (case res of Inl e \<Rightarrow> None | Inr r \<Rightarrow> map_of r k)"

text \<open>A verdict without the \<open>days_from_now\<close> of its \<open>next_rest_day\<close>.\<close>

definition drop_days_from_now :: "(string \<times> pyval) list \<Rightarrow> (string \<times> pyval) list" where
  "drop_days_from_now r =
     map (\<lambda>(k, v). (k, case v of
                          VDict d \<Rightarrow> if k = ''next_rest_day''
                                     then VDict (AList.delete ''days_from_now'' d) else v
                        | _ \<Rightarrow> v)) r"

section \<open>Evaluation\<close>

text \<open>
  The equations that evaluate the model on the sample inputs.  The loop is unfolded one
  iteration at a time.
\<close>

lemmas date_eval = isoformat_def ord2ymd_def Let_def py_str_def digits10.simps zfill_def
  weekday_def year_of_def DAYS_BEFORE_MONTH_def DAYS_IN_MONTH_def WEEKDAY_NAMES_def
  date_add_def MAXORDINAL_def days_between_def ascii_def

lemmas calendar_eval = calendar_2026_def tables_2026_def library_source_def
  lib_is_workday_def lib_get_holiday_detail_def upto.simps

lemmas cache_eval = load_cache_def save_cache_def file_exists_def read_text_def
  overwrite_def utf8_encodable_def update_auxiliary_cache_def
  sample_file_def sample_codec_def sample_loads_def sample_documents_def
  json_dumps_def dump_holidays_def dump_str_def escape_char_def hex_digit_def
  sample_cache_def two_year_cache_def surrogate_cache_def surrogate_document_def
  dict_get_def dict_in_def sample_net_def surrogate_net_def fetch_nager_holidays_def

lemmas verdict_eval = get_date_status_def find_next_rest_day_def rest_day_dict_def
  detail_of_def warning_of_def opt_dict_def truthy_def py_or_def field_def
  LABEL_WEEKEND_def LABEL_STATUTORY_def LABEL_MAKEUP_def LABEL_REST_def LABEL_NORMAL_def
  WARNING_TEXT_def

lemmas sample_eval = verdict_eval date_eval calendar_eval cache_eval

lemma rest_day_loop_unfold:
  "0 < n \<Longrightarrow> rest_day_loop src today from_date i n =
     (case date_add from_date i of
        Inl e \<Rightarrow> Inl e
      | Inr d \<Rightarrow>
          (case is_workday src d of
             Inl e \<Rightarrow> (if e = NotImplementedError then Inr None else Inl e)
           | Inr w \<Rightarrow>
               if \<not> w then
                 (case get_holiday_detail src d of
                    Inl e \<Rightarrow> (if e = NotImplementedError then Inr None else Inl e)
                  | Inr (on_holiday, holiday_name) \<Rightarrow>
                      Inr (Some (rest_day_dict today d on_holiday holiday_name)))
               else rest_day_loop src today from_date (i + 1) (n - 1)))"
proof -
  assume "0 < n"
  then obtain m where m: "n = Suc m" by (cases n) auto
  show ?thesis unfolding m diff_Suc_1 rest_day_loop.simps ..
qed

section \<open>Properties of \<open>find_next_rest_day\<close>\<close>

lemma rest_day_loop_Some:
  "rest_day_loop src today from_date i n = Inr (Some r) \<Longrightarrow>
   \<exists>k d h nm. i \<le> k \<and> k < i + int n \<and> date_add from_date k = Inr d
      \<and> is_workday src d = Inr False \<and> get_holiday_detail src d = Inr (h, nm)
      \<and> r = rest_day_dict today d h nm
      \<and> (\<forall>j. i \<le> j \<and> j < k \<longrightarrow>
            (\<exists>dj. date_add from_date j = Inr dj \<and> is_workday src dj = Inr True))"
proof (induction n arbitrary: i)
  case 0
  then show ?case by simp
next
  case (Suc n)
  from Suc.prems obtain d where d: "date_add from_date i = Inr d"
    by (auto split: sum.splits)
  show ?case
  proof (cases "is_workday src d")
    case (Inl e)
    with Suc.prems d show ?thesis by (auto split: if_splits)
  next
    case (Inr w)
    show ?thesis
    proof (cases w)
      case True
      with Suc.prems d Inr have "rest_day_loop src today from_date (i + 1) n = Inr (Some r)"
        by simp
      from Suc.IH[OF this] obtain k d' h nm where k:
        "i + 1 \<le> k" "k < i + 1 + int n" "date_add from_date k = Inr d'"
        "is_workday src d' = Inr False" "get_holiday_detail src d' = Inr (h, nm)"
        "r = rest_day_dict today d' h nm"
        "\<forall>j. i + 1 \<le> j \<and> j < k \<longrightarrow>
           (\<exists>dj. date_add from_date j = Inr dj \<and> is_workday src dj = Inr True)"
        by blast
      have "\<forall>j. i \<le> j \<and> j < k \<longrightarrow>
              (\<exists>dj. date_add from_date j = Inr dj \<and> is_workday src dj = Inr True)"
      proof (intro allI impI)
        fix j assume j: "i \<le> j \<and> j < k"
        show "\<exists>dj. date_add from_date j = Inr dj \<and> is_workday src dj = Inr True"
        proof (cases "j = i")
          case True
          with d Inr \<open>w\<close> show ?thesis by simp
        next
          case False
          with j have "i + 1 \<le> j \<and> j < k" by simp
          with k(7) show ?thesis by blast
        qed
      qed
      with k show ?thesis
        by (intro exI[of _ k] exI[of _ d'] exI[of _ h] exI[of _ nm]) simp
    next
      case False
      with Suc.prems d Inr obtain h nm where
        "get_holiday_detail src d = Inr (h, nm)" "r = rest_day_dict today d h nm"
        by (auto split: sum.splits if_splits)
      with d Inr False show ?thesis
        by (intro exI[of _ i] exI[of _ d] exI[of _ h] exI[of _ nm]) auto
    qed
  qed
qed


lemma rest_day_loop_unsupported:
  assumes "i \<le> k" "k < i + int n"
    and "\<forall>j. i \<le> j \<and> j < k \<longrightarrow>
           (\<exists>dj. date_add from_date j = Inr dj \<and> is_workday src dj = Inr True)"
    and "date_add from_date k = Inr d"
    and "is_workday src d = Inl NotImplementedError
         \<or> (is_workday src d = Inr False \<and> get_holiday_detail src d = Inl NotImplementedError)"
  shows "rest_day_loop src today from_date i n = Inr None"
  using assms
proof (induction n arbitrary: i)
  case 0
  then show ?case by simp
next
  case (Suc n)
  show ?case
  proof (cases "k = i")
    case True
    with Suc.prems(4,5) show ?thesis by auto
  next
    case False
    with Suc.prems(1,3) obtain di where
      di: "date_add from_date i = Inr di" "is_workday src di = Inr True"
      by force
    have "rest_day_loop src today from_date (i + 1) n = Inr None"
      by (rule Suc.IH) (use Suc.prems False in auto)
    with di show ?thesis by simp
  qed
qed


lemma map_of_rest_day_dict:
  "map_of (rest_day_dict today d h nm) ''date'' = Some (VStr (isoformat d))"
  "map_of (rest_day_dict today d h nm) ''days_from_now'' = Some (VInt (days_between d today))"
  by (simp_all add: rest_day_dict_def)




lemma sample_scan_found:
  "find_next_rest_day calendar_2026 (Date 739657) (Date 739660) 30 =
     Inr (Some [(''date'', VStr (ascii ''2026-02-15'')), (''weekday'', VStr [21608, 26085]),
                (''detail'', VStr (ascii ''Spring Festival'')), (''days_from_now'', VInt 5)])"
  by (simp add: sample_eval rest_day_loop_unfold cong: prod.case_cong_weak let_weak_cong)





text \<open>
  C4.  When \<open>find_next_rest_day\<close> returns a dictionary for the day \<open>d\<close>, its
  \<open>days_from_now\<close> is the number of days from \<open>today\<close> (the value of \<open>date.today()\<close>)
  to \<open>d\<close>, wherever the scan started; it is the number of days from \<open>from_date\<close> to
  \<open>d\<close> only when \<open>from_date\<close> is today.
\<close>

theorem days_from_now_counts_from_today:
  "find_next_rest_day src today from_date max_days = Inr (Some r) \<Longrightarrow>
   \<exists>k d. 1 \<le> k \<and> k \<le> max_days \<and> date_add from_date k = Inr d
      \<and> map_of r ''date'' = Some (VStr (isoformat d))
      \<and> map_of r ''days_from_now'' = Some (VInt (days_between d today))
      \<and> (days_between d today = days_between d from_date \<longleftrightarrow> from_date = today)"
proof -
  assume "find_next_rest_day src today from_date max_days = Inr (Some r)"
  then have "rest_day_loop src today from_date 1 (nat max_days) = Inr (Some r)"
    by (simp add: find_next_rest_day_def)
  from rest_day_loop_Some[OF this] obtain k d h nm where k:
    "1 \<le> k" "k < 1 + int (nat max_days)" "date_add from_date k = Inr d"
    "r = rest_day_dict today d h nm"
    by blast
  from k(1,2) have "k \<le> max_days" by linarith
  moreover have "days_between d today = days_between d from_date \<longleftrightarrow> from_date = today"
    by (auto simp: days_between_def date.expand)
  ultimately show ?thesis
    using k by (intro exI[of _ k] exI[of _ d]) (simp add: map_of_rest_day_dict)
qed

text \<open>
  The scan starts on 13 February and is run on 10 February: the rest day found is
  15 February, five days from today and two days from the start.
\<close>

theorem days_from_now_counts_from_today_witness:
  "\<exists>k d. 1 \<le> k \<and> k \<le> 30 \<and> date_add (Date 739660) k = Inr d
      \<and> Some (VStr (ascii ''2026-02-15'')) = Some (VStr (isoformat d))
      \<and> Some (VInt 5) = Some (VInt (days_between d (Date 739657)))
      \<and> (days_between d (Date 739657) = days_between d (Date 739660)
            \<longleftrightarrow> Date 739660 = Date 739657)"
  using days_from_now_counts_from_today[OF sample_scan_found]
  by simp

text \<open>
  C5.  When the source raises \<open>NotImplementedError\<close> on the day \<open>from_date + k\<close> of the
  scan, in \<open>is_workday\<close> or, the day not being a working day, in
  \<open>get_holiday_detail\<close>, and every day before it in the scan was a working day,
  \<open>find_next_rest_day\<close> returns \<open>None\<close>: the error does not reach the caller, and
  what the source says of the later days is not looked at.
\<close>

theorem find_next_rest_day_stops_at_unsupported_year:
  assumes "1 \<le> k" and "k \<le> max_days"
    and "\<forall>j. 1 \<le> j \<and> j < k \<longrightarrow>
           (\<exists>dj. date_add from_date j = Inr dj \<and> is_workday src dj = Inr True)"
    and "date_add from_date k = Inr d"
    and "is_workday src d = Inl NotImplementedError
         \<or> (is_workday src d = Inr False \<and> get_holiday_detail src d = Inl NotImplementedError)"
  shows "find_next_rest_day src today from_date max_days = Inr None"
proof -
  from assms(1,2) have "k < 1 + int (nat max_days)" by linarith
  with assms have "rest_day_loop src today from_date 1 (nat max_days) = Inr None"
    by (intro rest_day_loop_unsupported[where k = k and d = d]) auto
  then show ?thesis by (simp add: find_next_rest_day_def)
qed

lemma sample_scan_year_end:
  "\<forall>j. 1 \<le> j \<and> j < 4 \<longrightarrow>
     (\<exists>dj. date_add (Date 739978) j = Inr dj \<and> is_workday calendar_2026 dj = Inr True)"
proof (intro allI impI)
  fix j :: int assume "1 \<le> j \<and> j < 4"
  then have "j = 1 \<or> j = 2 \<or> j = 3" by presburger
  then show "\<exists>dj. date_add (Date 739978) j = Inr dj \<and> is_workday calendar_2026 dj = Inr True"
    by (elim disjE)
       (simp_all add: date_add_def MAXORDINAL_def calendar_eval weekday_def)
qed

text \<open>
  From Monday 28 December 2026 the scan passes three working days and reaches
  1 January 2027, for which the sample source has no table.
\<close>

theorem find_next_rest_day_stops_at_unsupported_year_witness:
  "find_next_rest_day calendar_2026 (Date 739657) (Date 739978) 30 = Inr None"
proof -
  have "date_add (Date 739978) 4 = Inr (Date 739982)"
    by (simp add: date_add_def MAXORDINAL_def)
  moreover have "is_workday calendar_2026 (Date 739982) = Inl NotImplementedError"
    by (simp add: calendar_eval)
  ultimately show ?thesis
    using find_next_rest_day_stops_at_unsupported_year[of 4 30 "Date 739978" calendar_2026
        "Date 739982" "Date 739657"] sample_scan_year_end
    by simp
qed

section \<open>Properties of \<open>get_date_status\<close>\<close>

lemma get_date_status_Inr:
  assumes "get_date_status codec src f today target_date = Inr r"
  obtains w h nm c nrd where
    "is_workday src target_date = Inr w"
    "get_holiday_detail src target_date = Inr (h, nm)"
    "load_cache codec f = Inr c"
    "find_next_rest_day src today target_date 30 = Inr nrd"
    "r = [(''date'', VStr (isoformat target_date)),
          (''weekday'', VStr (WEEKDAY_NAMES ! nat (weekday target_date))),
          (''is_workday'', VBool w),
          (''detail'', VStr (detail_of w h nm (weekday target_date))),
          (''next_rest_day'', opt_dict nrd),
          (''warning'', warning_of h (dict_get c (py_str (year_of target_date)))
                          (isoformat target_date))]
         @ (if h \<and> truthy nm then [(''holiday_name'', VStr (py_or nm []))] else [])"
  using assms unfolding get_date_status_def Let_def
  by (auto split: sum.splits prod.splits)

lemma weekday_range: "0 \<le> weekday d \<and> weekday d \<le> 6"
  by (simp add: weekday_def)

lemma library_holiday_flag:
  assumes "is_workday (library_source lib) d = Inr w"
    and "get_holiday_detail (library_source lib) d = Inr (h, nm)"
  shows "h = (\<not> w)"
  using assms
  by (auto simp: library_source_def lib_is_workday_def lib_get_holiday_detail_def
        split: if_splits option.splits)

text \<open>
  C1.  When \<open>get_date_status\<close> returns a verdict for a date on which the source
  answers (\<open>w\<close> is the answer of \<open>is_workday\<close>, \<open>h\<close> and \<open>nm\<close> the answer of
  \<open>get_holiday_detail\<close>), its \<open>detail\<close> is chosen in this order: on a designated
  holiday the holiday's name when there is one (a name that \<open>or\<close> takes as true), else
  the statutory holiday label; else on a working Saturday or Sunday the make-up label;
  else on a non-working day from Monday to Friday the rest-day label; else on a working
  day the normal label; else the weekend label.  In particular, with the library as the
  source, every working Saturday or Sunday has the make-up label: the library never
  reports a working day as a holiday.
\<close>

theorem detail_reason_by_priority:
  assumes "get_date_status codec src f today target_date = Inr r"
    and "is_workday src target_date = Inr w"
    and "get_holiday_detail src target_date = Inr (h, nm)"
  shows "map_of r ''detail'' = Some (VStr
           (if h then (case nm of None \<Rightarrow> LABEL_STATUTORY
                       | Some name \<Rightarrow> if name \<noteq> [] then name else LABEL_STATUTORY)
            else if w \<and> (weekday target_date = 5 \<or> weekday target_date = 6) then LABEL_MAKEUP
            else if \<not> w \<and> weekday target_date \<in> {0, 1, 2, 3, 4} then LABEL_REST
            else if w then LABEL_NORMAL
            else LABEL_WEEKEND))
         \<and> (src = library_source lib \<and> w
               \<and> (weekday target_date = 5 \<or> weekday target_date = 6)
             \<longrightarrow> map_of r ''detail'' = Some (VStr LABEL_MAKEUP))"
proof -
  from assms(1) obtain w' h' nm' where
    "is_workday src target_date = Inr w'" "get_holiday_detail src target_date = Inr (h', nm')"
    and d: "map_of r ''detail'' = Some (VStr (detail_of w' h' nm' (weekday target_date)))"
    by (rule get_date_status_Inr) simp
  with assms(2,3) have eq: "w' = w" "h' = h" "nm' = nm" by simp_all
  have "weekday target_date \<ge> 5 \<longleftrightarrow> weekday target_date = 5 \<or> weekday target_date = 6"
    using weekday_range[of target_date] by arith
  moreover have "weekday target_date < 5 \<longleftrightarrow> weekday target_date \<in> {0, 1, 2, 3, 4}"
    using weekday_range[of target_date] by auto
  ultimately have p: "map_of r ''detail'' = Some (VStr
           (if h then (case nm of None \<Rightarrow> LABEL_STATUTORY
                       | Some name \<Rightarrow> if name \<noteq> [] then name else LABEL_STATUTORY)
            else if w \<and> (weekday target_date = 5 \<or> weekday target_date = 6) then LABEL_MAKEUP
            else if \<not> w \<and> weekday target_date \<in> {0, 1, 2, 3, 4} then LABEL_REST
            else if w then LABEL_NORMAL
            else LABEL_WEEKEND))"
    unfolding d eq detail_of_def py_or_def
    by (simp split: option.splits)
  have "map_of r ''detail'' = Some (VStr LABEL_MAKEUP)"
    if "src = library_source lib" "w" "weekday target_date = 5 \<or> weekday target_date = 6"
  proof -
    from assms(2,3) have "h = (\<not> w)"
      unfolding that(1) by (rule library_holiday_flag)
    with that(2,3) p show ?thesis by simp
  qed
  with p show ?thesis by blast
qed

lemma sample_verdict_makeup:
  "get_date_status sample_codec calendar_2026 sample_file (Date 739657) (Date 739661) =
     Inr [(''date'', VStr (ascii ''2026-02-14'')),
          (''weekday'', VStr [21608, 20845]), (''is_workday'', VBool True),
          (''detail'', VStr [35843, 20241, 34917, 29677]),
          (''next_rest_day'',
             VDict [(''date'', VStr (ascii ''2026-02-15'')), (''weekday'', VStr [21608, 26085]),
                    (''detail'', VStr (ascii ''Spring Festival'')), (''days_from_now'', VInt 5)]),
          (''warning'', VNone)]"
  by (simp add: sample_eval rest_day_loop_unfold cong: prod.case_cong_weak let_weak_cong)

text \<open>
  Saturday 14 February 2026 is worked in the sample tables of the library.
\<close>

theorem detail_reason_by_priority_witness:
  "field ''detail'' (get_date_status sample_codec calendar_2026 sample_file
      (Date 739657) (Date 739661)) = Some (VStr LABEL_MAKEUP)"
proof -
  have w: "is_workday calendar_2026 (Date 739661) = Inr True"
    by (simp add: calendar_eval weekday_def)
  have h: "get_holiday_detail calendar_2026 (Date 739661)
             = Inr (False, Some (ascii ''Spring Festival''))"
    by (simp add: calendar_eval weekday_def ascii_def)
  have wd: "weekday (Date 739661) = 5" by (simp add: weekday_def)
  have c: "calendar_2026 = library_source tables_2026" by (simp add: calendar_2026_def)
  from detail_reason_by_priority[OF sample_verdict_makeup w h, of tables_2026, THEN conjunct2]
    c wd
  have "map_of [(''date'', VStr (ascii ''2026-02-14'')),
          (''weekday'', VStr [21608, 20845]), (''is_workday'', VBool True),
          (''detail'', VStr [35843, 20241, 34917, 29677]),
          (''next_rest_day'',
             VDict [(''date'', VStr (ascii ''2026-02-15'')), (''weekday'', VStr [21608, 26085]),
                    (''detail'', VStr (ascii ''Spring Festival'')), (''days_from_now'', VInt 5)]),
          (''warning'', VNone)] ''detail'' = Some (VStr LABEL_MAKEUP)"
    by blast
  then show ?thesis by (simp only: field_def sample_verdict_makeup sum.case)
qed




lemma rest_day_loop_today:
  "map_sum id (map_option (AList.delete ''days_from_now'')) (rest_day_loop src today from_date i n)
   = map_sum id (map_option (AList.delete ''days_from_now'')) (rest_day_loop src today' from_date i n)"
proof (induction n arbitrary: i)
  case 0
  show ?case by simp
next
  case (Suc n)
  then show ?case
    by (auto simp: rest_day_dict_def split: sum.splits)
qed

lemma drop_days_from_now_verdict:
  "drop_days_from_now
     ((''date'', VStr a) # (''weekday'', VStr b) # (''is_workday'', VBool w)
       # (''detail'', VStr dt) # (''next_rest_day'', opt_dict nrd) # (''warning'', wn) # extra)
   = (''date'', VStr a) # (''weekday'', VStr b) # (''is_workday'', VBool w)
      # (''detail'', VStr dt)
      # (''next_rest_day'', opt_dict (map_option (AList.delete ''days_from_now'') nrd))
      # (''warning'', wn) # drop_days_from_now extra"
  by (cases nrd) (simp_all add: drop_days_from_now_def opt_dict_def split: pyval.splits)

text \<open>
  C6, amended.  The outcome of \<open>get_date_status\<close> (a verdict or an error) is determined
  by the primary source, the index loaded from the cache file, the target and the
  current date: two cache files that load to the same index give the same outcome.
  The current date enters only through \<open>days_from_now\<close> of \<open>next_rest_day\<close>: without
  that entry, the outcomes of two runs on different days are equal.  The function
  returns no new state of the file, it only reads it; the log is not modelled.
\<close>

theorem verdict_depends_on_today_only_in_days_from_now:
  "load_cache codec f = load_cache codec' f' \<Longrightarrow>
     get_date_status codec src f today target_date = get_date_status codec' src f' today target_date
     \<and> map_sum id drop_days_from_now (get_date_status codec src f today target_date)
       = map_sum id drop_days_from_now (get_date_status codec' src f' today' target_date)"
proof
  assume l: "load_cache codec f = load_cache codec' f'"
  show "get_date_status codec src f today target_date = get_date_status codec' src f' today target_date"
    unfolding get_date_status_def l ..
  have "map_sum id (map_option (AList.delete ''days_from_now'')) (find_next_rest_day src today target_date 30)
      = map_sum id (map_option (AList.delete ''days_from_now'')) (find_next_rest_day src today' target_date 30)"
    unfolding find_next_rest_day_def by (rule rest_day_loop_today)
  then show "map_sum id drop_days_from_now (get_date_status codec src f today target_date)
       = map_sum id drop_days_from_now (get_date_status codec' src f' today' target_date)"
    unfolding get_date_status_def Let_def l
    by (auto simp: drop_days_from_now_verdict split: sum.splits prod.splits)
qed

text \<open>
  A missing cache file and one that is not JSON load to the same empty index.
\<close>

theorem verdict_depends_on_today_only_in_days_from_now_witness:
  "get_date_status sample_codec calendar_2026 Absent (Date 739657) (Date 739661)
     = get_date_status sample_codec calendar_2026 (Content (ascii ''not json'')) (Date 739657) (Date 739661)
   \<and> map_sum id drop_days_from_now
        (get_date_status sample_codec calendar_2026 Absent (Date 739657) (Date 739661))
     = map_sum id drop_days_from_now
        (get_date_status sample_codec calendar_2026 (Content (ascii ''not json'')) (Date 739658) (Date 739661))"
proof -
  have "load_cache sample_codec Absent = load_cache sample_codec (Content (ascii ''not json''))"
    by (simp add: sample_eval rest_day_loop_unfold cong: prod.case_cong_weak let_weak_cong)
  then show ?thesis
    by (rule verdict_depends_on_today_only_in_days_from_now)
qed

text \<open>
  C6 as it was stated fails: with the same source, the same cache file and the same
  target, the verdict of 10 February 2026 and the verdict of 11 February 2026 differ.
\<close>

theorem verdict_changes_with_today_counterexample:
  "get_date_status sample_codec calendar_2026 sample_file (Date 739657) (Date 739661)
   \<noteq> get_date_status sample_codec calendar_2026 sample_file (Date 739658) (Date 739661)"
  by (simp add: sample_eval rest_day_loop_unfold cong: prod.case_cong_weak let_weak_cong)

section \<open>Properties of the cache store\<close>

lemma load_cache_degrades:
  "load_cache codec Absent = Inr []"
  "load_cache codec (Unreadable e) = Inr []"
  "load_cache codec Undecodable = Inr []"
  "json_loads codec t = Inl e' \<Longrightarrow> load_cache codec (Content t) = Inr []"
  "json_loads codec t = Inr c \<Longrightarrow> load_cache codec (Content t) = Inr c"
  by (simp_all add: load_cache_def file_exists_def read_text_def)

text \<open>
  C7 fails on the code.  \<open>load_cache\<close> returns the empty index when there is no
  file, when the file cannot be read and when its text is not JSON, and the parsed
  content otherwise, as the lemma above says.  But the test \<open>CACHE_FILE.exists()\<close> is
  outside the \<open>try\<close>: in a state of the storage where the test itself raises,
  \<open>load_cache\<close> raises the same error.
\<close>

theorem load_cache_raises_when_exists_raises:
  "load_cache codec (Inaccessible e) = Inl e"
  by (simp add: load_cache_def file_exists_def)

text \<open>
  When the save raises nothing and \<open>json.loads\<close> reads back what \<open>json.dumps\<close> wrote,
  loading again returns the index that was saved.
\<close>

lemma save_then_load:
  assumes "load_cache codec (stored st) = Inr c"
    and "save_cache c st = (st', None)"
    and "json_loads codec (json_dumps c) = Inr c"
  shows "load_cache codec (stored st') = Inr c"
proof -
  from assms(2) have st': "st' = st\<lparr>stored := overwrite (json_dumps c) (stored st)\<rparr>"
    by (auto simp: save_cache_def Let_def split: option.splits if_splits)
  show ?thesis
    using assms(1,3) unfolding st'
    by (cases "stored st")
       (simp_all add: overwrite_def load_cache_def file_exists_def read_text_def)
qed

text \<open>
  C8 fails on the code.  The file holds the document
  \<open>{"2026": {"2026-01-01": "\ud800"}}\<close>.  The first load returns the index whose
  holiday name is the lone surrogate.  Saving this index empties the file and raises
  \<open>UnicodeEncodeError\<close>, since \<open>json.dumps\<close> with \<open>ensure_ascii=False\<close> writes the
  surrogate as it is and UTF-8 cannot encode it.  The second load then returns the empty
  index, which is not the first one.
\<close>

theorem round_trip_lost_on_surrogate:
  "load_cache sample_codec (Content surrogate_document) = Inr surrogate_cache
   \<and> save_cache surrogate_cache \<lparr>stored = Content surrogate_document, write_error = None\<rparr>
       = (\<lparr>stored = Content [], write_error = None\<rparr>, Some UnicodeEncodeError)
   \<and> load_cache sample_codec (Content []) = Inr []
   \<and> surrogate_cache \<noteq> []"
  by (simp add: cache_eval ascii_def)

section \<open>Properties of \<open>update_auxiliary_cache\<close>\<close>

lemma digits10_nonempty: "digits10 n \<noteq> []"
  by (subst digits10.simps) simp

lemma last_digits10: "last (digits10 n) = 48 + int (n mod 10)"
  by (subst digits10.simps) (simp add: digits10_nonempty)

lemma hd_digits10: "48 \<le> hd (digits10 n)"
proof (induction n rule: digits10.induct)
  case (1 n)
  show ?case
  proof (cases "n < 10")
    case True
    then show ?thesis by (subst digits10.simps) simp
  next
    case False
    with 1 show ?thesis
      by (subst digits10.simps) (simp add: digits10_nonempty)
  qed
qed

lemma mod10_Suc: "(m::nat) mod 10 \<noteq> Suc m mod 10"
  by (simp add: mod_Suc)

lemma last_digits10_Suc: "last (digits10 m) \<noteq> last (digits10 (Suc m))"
  using mod10_Suc[of m] by (simp add: last_digits10)

lemma py_str_succ: "py_str n \<noteq> py_str (n + 1)"
proof -
  consider "0 \<le> n" | "n = -1" | "n < -1" by linarith
  then show ?thesis
  proof cases
    case 1
    then have "nat (n + 1) = Suc (nat n)" by simp
    with 1 last_digits10_Suc[of "nat n"] show ?thesis
      by (auto simp: py_str_def)
  next
    case 2
    have "hd (py_str (-1)) = 45" by (simp add: py_str_def)
    moreover have "48 \<le> hd (py_str 0)" by (simp add: py_str_def hd_digits10)
    ultimately show ?thesis using 2 by auto
  next
    case 3
    then have "nat (- n) = Suc (nat (- (n + 1)))" by simp
    with 3 last_digits10_Suc[of "nat (- (n + 1))"] show ?thesis
      by (auto simp: py_str_def digits10_nonempty)
  qed
qed

lemma map_of_update_year:
  "map_of (update_year net c y) k =
     (if k = py_str y \<and> fetch_nager_holidays net y \<noteq> [] then Some (fetch_nager_holidays net y)
      else map_of c k)"
  by (simp add: update_year_def Let_def update_conv')

lemma map_of_refreshed_cache:
  "map_of (refreshed_cache net today c) k =
     (if k = py_str (year_of today + 1) \<and> fetch_nager_holidays net (year_of today + 1) \<noteq> []
      then Some (fetch_nager_holidays net (year_of today + 1))
      else if k = py_str (year_of today) \<and> fetch_nager_holidays net (year_of today) \<noteq> []
      then Some (fetch_nager_holidays net (year_of today))
      else map_of c k)"
  by (auto simp: refreshed_cache_def Let_def map_of_update_year)

text \<open>
  When the job ends without an exception, the file holds the refreshed index, in which
  only the entries of the current year and of the next year can differ from the loaded
  index, each only when its fetch gave a non-empty dictionary (the lemma above).
\<close>

lemma refresh_when_saved:
  assumes "load_cache codec (stored st) = Inr c"
    and "update_auxiliary_cache codec net today st = (st', None)"
  shows "stored st' = overwrite (json_dumps (refreshed_cache net today c)) (stored st)"
  using assms
  by (auto simp: update_auxiliary_cache_def save_cache_def Let_def
        split: option.splits if_splits)

text \<open>
  C10 fails on the code.  On 10 February 2026 the file holds entries for 2025 and 2026,
  and the fetch for 2026 gives a holiday whose local name is a lone surrogate.  The job
  stores the fetched entry in the index, and \<open>save_cache\<close> empties the file and raises
  \<open>UnicodeEncodeError\<close>: the entry for 2025, a year the job does not fetch, is no
  longer in the persisted index.
\<close>

theorem refresh_empties_cache_on_surrogate:
  "load_cache sample_codec (Content (json_dumps two_year_cache)) = Inr two_year_cache
   \<and> update_auxiliary_cache sample_codec surrogate_net (Date 739657)
        \<lparr>stored = Content (json_dumps two_year_cache), write_error = None\<rparr>
       = (\<lparr>stored = Content [], write_error = None\<rparr>, Some UnicodeEncodeError)
   \<and> load_cache sample_codec (Content []) = Inr []
   \<and> map_of two_year_cache (ascii ''2025'') \<noteq> map_of [] (ascii ''2025'')"
  by (simp add: cache_eval date_eval refreshed_cache_def update_year_def
        cong: prod.case_cong_weak let_weak_cong)

section \<open>Properties of \<open>check_date\<close>\<close>

text \<open>
  The seven formats compile to four patterns: a format with the flag \<open>-\<close> compiles to
  the pattern of the format before it, or is rejected.  So the loop over the formats
  tries the dashes, the underscores, the compact pattern and the Chinese pattern, in
  this order, whatever the runtime does with the flag.
\<close>

lemma compile_formats:
  "map (compile_format fl False) formats =
     [Inr [DirY, Lit 45, DirM, Lit 45, DirD],
      if fl then Inr [DirY, Lit 45, DirM, Lit 45, DirD] else Inl ValueError,
      Inr [DirY, Lit 95, DirM, Lit 95, DirD],
      if fl then Inr [DirY, Lit 95, DirM, Lit 95, DirD] else Inl ValueError,
      Inr [DirY, DirM, DirD],
      Inr [DirY, Lit 24180, DirM, Lit 26376, DirD, Lit 26085],
      if fl then Inr [DirY, Lit 24180, DirM, Lit 26376, DirD, Lit 26085] else Inl ValueError]"
  by (cases fl) (simp_all add: formats_def ascii_def cons_tok_def)

lemma match_tokens_error: "match_tokens rt toks s = Inl e \<Longrightarrow> e = ValueError"
  by (auto simp: match_tokens_def mk_date_def split: list.splits prod.splits if_splits)

lemma strptime_error: "strptime rt s fmt = Inl e \<Longrightarrow> e = ValueError"
proof -
  have c: "compile_format fl b f = Inl e' \<Longrightarrow> e' = ValueError" for fl b f e'
    by (induction fl b f rule: compile_format.induct)
       (auto simp: cons_tok_def split: if_splits sum.splits)
  assume "strptime rt s fmt = Inl e"
  then show ?thesis
    by (auto simp: strptime_def split: sum.splits dest: c match_tokens_error)
qed

lemma parse_formats_step:
  "parse_formats rt s (fmt # fmts) =
     (case strptime rt s fmt of Inr d \<Rightarrow> Inr (Some d) | Inl _ \<Rightarrow> parse_formats rt s fmts)"
  by (auto split: sum.splits dest: strptime_error)

lemma parse_formats_formats:
  "parse_formats rt s formats =
     (case match_tokens rt [DirY, Lit 45, DirM, Lit 45, DirD] s of
        Inr d \<Rightarrow> Inr (Some d)
      | Inl _ \<Rightarrow>
     (case match_tokens rt [DirY, Lit 95, DirM, Lit 95, DirD] s of
        Inr d \<Rightarrow> Inr (Some d)
      | Inl _ \<Rightarrow>
     (case match_tokens rt [DirY, DirM, DirD] s of
        Inr d \<Rightarrow> Inr (Some d)
      | Inl _ \<Rightarrow>
     (case match_tokens rt [DirY, Lit 24180, DirM, Lit 26376, DirD, Lit 26085] s of
        Inr d \<Rightarrow> Inr (Some d)
      | Inl _ \<Rightarrow> Inr None))))"
proof -
  define A where "A = match_tokens rt [DirY, Lit 45, DirM, Lit 45, DirD] s"
  define B where "B = match_tokens rt [DirY, Lit 95, DirM, Lit 95, DirD] s"
  define C where "C = match_tokens rt [DirY, DirM, DirD] s"
  define D where "D = match_tokens rt [DirY, Lit 24180, DirM, Lit 26376, DirD, Lit 26085] s"
  define fl where "fl = strptime_flags rt"
  obtain f1 f2 f3 f4 f5 f6 f7 where f: "formats = [f1, f2, f3, f4, f5, f6, f7]"
    by (simp add: formats_def)
  from compile_formats[of fl] have c:
    "compile_format fl False f1 = Inr [DirY, Lit 45, DirM, Lit 45, DirD]"
    "compile_format fl False f2 =
       (if fl then Inr [DirY, Lit 45, DirM, Lit 45, DirD] else Inl ValueError)"
    "compile_format fl False f3 = Inr [DirY, Lit 95, DirM, Lit 95, DirD]"
    "compile_format fl False f4 =
       (if fl then Inr [DirY, Lit 95, DirM, Lit 95, DirD] else Inl ValueError)"
    "compile_format fl False f5 = Inr [DirY, DirM, DirD]"
    "compile_format fl False f6 = Inr [DirY, Lit 24180, DirM, Lit 26376, DirD, Lit 26085]"
    "compile_format fl False f7 =
       (if fl then Inr [DirY, Lit 24180, DirM, Lit 26376, DirD, Lit 26085]
        else Inl ValueError)"
    unfolding f by simp_all
  have st: "strptime rt s f1 = A" "strptime rt s f2 = (if fl then A else Inl ValueError)"
    "strptime rt s f3 = B" "strptime rt s f4 = (if fl then B else Inl ValueError)"
    "strptime rt s f5 = C" "strptime rt s f6 = D"
    "strptime rt s f7 = (if fl then D else Inl ValueError)"
    using c by (simp_all add: strptime_def A_def B_def C_def D_def fl_def)
  have "parse_formats rt s [f1, f2, f3, f4, f5, f6, f7] =
     (case A of Inr d \<Rightarrow> Inr (Some d) | Inl _ \<Rightarrow>
     (case B of Inr d \<Rightarrow> Inr (Some d) | Inl _ \<Rightarrow>
     (case C of Inr d \<Rightarrow> Inr (Some d) | Inl _ \<Rightarrow>
     (case D of Inr d \<Rightarrow> Inr (Some d) | Inl _ \<Rightarrow> Inr None))))"
    unfolding parse_formats_step st parse_formats.simps(1)
    by (cases A; cases B; cases C; cases D; cases fl; simp)
  then show ?thesis
    unfolding f A_def B_def C_def D_def .
qed

lemma digit_bounds:
  "0 \<le> (x::int) mod 10" "(x::int) mod 10 \<le> 9"
  by (simp_all add: zle_diff1_eq[symmetric, of _ 10, simplified])

lemma py_digit_ascii: "0 \<le> v \<Longrightarrow> v \<le> 9 \<Longrightarrow> py_digit rt (48 + v) = Some v"
  by (simp add: py_digit_def)

lemma four_digits:
  "((y div 1000 * 10 + y div 100 mod 10) * 10 + y div 10 mod 10) * 10 + y mod 10 = (y::int)"
proof -
  have e: "y div 100 = y div 10 div 10" "y div 1000 = y div 10 div 10 div 10"
    by (simp_all add: zdiv_zmult2_eq)
  show ?thesis unfolding e by (simp only: div_mult_mod_eq)
qed

lemma alts_Y_render:
  assumes "0 \<le> y" "y \<le> 9999"
  shows "alts_Y rt (render_year y @ r) = [(y, r)]"
proof -
  have a: "0 \<le> y div 1000" using assms(1) by (simp add: pos_imp_zdiv_nonneg_iff)
  have "y div 1000 \<le> 9999 div 1000" using assms(2) by (intro zdiv_mono1) simp_all
  then have a': "y div 1000 \<le> 9" by simp
  note d = py_digit_ascii[OF a a', of rt] py_digit_ascii[OF digit_bounds, of rt "y div 100"]
    py_digit_ascii[OF digit_bounds, of rt "y div 10"] py_digit_ascii[OF digit_bounds, of rt y]
  show ?thesis
    unfolding alts_Y_def render_year_def
    by (simp only: append_Cons append_Nil list.case d prod.case option.case four_digits)
qed

lemma month_cases:
  "1 \<le> (m::int) \<Longrightarrow> m \<le> 12 \<Longrightarrow>
   m = 1 \<or> m = 2 \<or> m = 3 \<or> m = 4 \<or> m = 5 \<or> m = 6 \<or> m = 7 \<or> m = 8 \<or> m = 9
   \<or> m = 10 \<or> m = 11 \<or> m = 12"
  by arith

lemma day_cases:
  "1 \<le> (d::int) \<Longrightarrow> d \<le> 31 \<Longrightarrow>
   d = 1 \<or> d = 2 \<or> d = 3 \<or> d = 4 \<or> d = 5 \<or> d = 6 \<or> d = 7 \<or> d = 8 \<or> d = 9
   \<or> d = 10 \<or> d = 11 \<or> d = 12 \<or> d = 13 \<or> d = 14 \<or> d = 15 \<or> d = 16 \<or> d = 17
   \<or> d = 18 \<or> d = 19 \<or> d = 20 \<or> d = 21 \<or> d = 22 \<or> d = 23 \<or> d = 24 \<or> d = 25
   \<or> d = 26 \<or> d = 27 \<or> d = 28 \<or> d = 29 \<or> d = 30 \<or> d = 31"
  by arith

lemma month_then_literal:
  assumes "1 \<le> m" "m \<le> 12" "c = 45 \<or> c = 95 \<or> c = 26376"
  shows "re_match rt (DirM # Lit c # ts) (render_field p m @ c # r) ymd
           = re_match rt ts r (fst ymd, m, snd (snd ymd))"
  using month_cases[OF assms(1,2)] assms(3)
  by (cases p) (elim disjE; simp add: alts_m_def render_field_def)+

lemma day_at_end:
  assumes "1 \<le> d" "d \<le> 31"
  shows "\<exists>xs. re_match rt [DirD] (render_field p d) ymd
           = ((fst ymd, fst (snd ymd), d), []) # xs"
  using day_cases[OF assms]
  by (cases p) (elim disjE; simp add: alts_d_def render_field_def py_digit_def)+

lemma day_then_ri:
  assumes "1 \<le> d" "d \<le> 31"
  shows "re_match rt [DirD, Lit 26085] (render_field p d @ [26085]) ymd
           = [((fst ymd, fst (snd ymd), d), [])]"
proof (cases "\<not> p \<and> (d = 1 \<or> d = 2)")
  case True
  then have pd: "\<not> p" "d = 1 \<or> d = 2" by auto
  show ?thesis
  proof (cases "nd_digit rt 26085")
    case None
    with pd show ?thesis
      by (elim disjE) (simp_all add: alts_d_def render_field_def py_digit_def)
  next
    case (Some v)
    with pd show ?thesis
      by (elim disjE) (simp_all add: alts_d_def render_field_def py_digit_def)
  qed
next
  case False
  show ?thesis
  proof (cases p)
    case True
    with day_cases[OF assms] show ?thesis
      by (elim disjE; simp add: alts_d_def render_field_def py_digit_def)
  next
    case p: False
    with False have "d \<noteq> 1" "d \<noteq> 2" by auto
    with day_cases[OF assms] p show ?thesis
      by (elim disjE; simp add: alts_d_def render_field_def py_digit_def)
  qed
qed

lemma days_in_month_le: "1 \<le> m \<Longrightarrow> m \<le> 12 \<Longrightarrow> days_in_month y m \<le> 31"
  by (drule (1) month_cases) (elim disjE; simp add: days_in_month_def DAYS_IN_MONTH_def)+

lemma valid_ymdD:
  assumes "valid_ymd y m d"
  shows "0 \<le> y" "y \<le> 9999" "1 \<le> m" "m \<le> 12" "1 \<le> d" "d \<le> 31"
    "mk_date y m d = Inr (Date (ymd2ord y m d))"
  using assms days_in_month_le[of m y]
  by (auto simp: valid_ymd_def mk_date_def)

lemma render_field_hd:
  assumes "1 \<le> n" "n \<le> 31"
  shows "\<exists>x r. render_field p n = x # r \<and> 48 \<le> x \<and> x \<le> 57"
  using day_cases[OF assms]
  by (cases p) (elim disjE; simp add: render_field_def)+

lemma year_then:
  assumes "0 \<le> y" "y \<le> 9999"
  shows "re_match rt (DirY # ts) (render_year y @ r) ymd
           = re_match rt ts r (y, fst (snd ymd), snd (snd ymd))"
  by (simp add: alts_Y_render[OF assms])

lemma literal_then:
  "re_match rt (Lit c # ts) (x # r) ymd = (if x = c then re_match rt ts r ymd else [])"
  by simp

lemma match_separated:
  assumes "valid_ymd y m d" "c = 45 \<or> c = 95"
  shows "match_tokens rt [DirY, Lit c, DirM, Lit c, DirD]
           (render_year y @ c # render_field pm m @ c # render_field pd d)
         = Inr (Date (ymd2ord y m d))"
proof -
  note v = valid_ymdD[OF assms(1)]
  from day_at_end[OF v(5,6)] obtain xs where
    "re_match rt [DirD] (render_field pd d) (y, m, 1) = ((y, m, d), []) # xs"
    by fastforce
  moreover have "c = 45 \<or> c = 95 \<or> c = 26376" using assms(2) by auto
  ultimately show ?thesis
    by (simp add: match_tokens_def year_then[OF v(1,2)] literal_then
          month_then_literal[OF v(3,4)] v(7) del: re_match.simps)
qed

lemma match_wrong_literal:
  assumes "0 \<le> y" "y \<le> 9999" "x \<noteq> c"
  shows "match_tokens rt (DirY # Lit c # ts) (render_year y @ x # r) = Inl ValueError"
  using assms(3)
  by (simp add: match_tokens_def year_then[OF assms(1,2)] literal_then del: re_match.simps)

lemma match_chinese:
  assumes "valid_ymd y m d"
  shows "match_tokens rt [DirY, Lit 24180, DirM, Lit 26376, DirD, Lit 26085]
           (render_year y @ 24180 # render_field pm m @ 26376 # render_field pd d @ [26085])
         = Inr (Date (ymd2ord y m d))"
proof -
  note v = valid_ymdD[OF assms(1)]
  show ?thesis
    by (simp add: match_tokens_def year_then[OF v(1,2)] literal_then
          month_then_literal[OF v(3,4)] day_then_ri[OF v(5,6)] v(7) del: re_match.simps)
qed

lemma match_compact_on_chinese:
  assumes "0 \<le> y" "y \<le> 9999"
  shows "match_tokens rt [DirY, DirM, DirD] (render_year y @ 24180 # r) = Inl ValueError"
proof -
  have "alts_m (24180 # r) = []"
    by (simp add: alts_m_def split: list.splits)
  then have "re_match rt [DirM, DirD] (24180 # r) ymd = []" for ymd
    by simp
  then show ?thesis
    by (simp add: match_tokens_def year_then[OF assms] del: re_match.simps)
qed

lemma month_two_chars:
  assumes "1 \<le> m" "m \<le> 12" "p \<or> 10 \<le> m"
  shows "\<exists>ms. alts_m (render_field p m @ r) = (m, r) # ms"
  using month_cases[OF assms(1,2)] assms(3)
  by (elim disjE; simp add: alts_m_def render_field_def)

lemma month_one_char:
  assumes "2 \<le> m" "m \<le> 9"
  shows "alts_m (render_field False m @ r) = [(m, r)]"
proof -
  from assms have "m = 2 \<or> m = 3 \<or> m = 4 \<or> m = 5 \<or> m = 6 \<or> m = 7 \<or> m = 8 \<or> m = 9"
    by arith
  then show ?thesis
    by (elim disjE; simp add: alts_m_def render_field_def split: list.splits)
qed

lemma january_compact:
  assumes "1 \<le> d" "d \<le> 31"
  shows "\<exists>xs. re_match rt [DirM, DirD] (49 # render_field pd d) ymd
           = ((fst ymd,
               (if pd \<and> d < 10 then (10, d)
                else if 11 \<le> d \<and> d \<le> 19 then (11, d - 10)
                else if 21 \<le> d \<and> d \<le> 29 then (12, d - 20)
                else (1, d))), []) # xs"
  using day_cases[OF assms]
  by (cases pd) (elim disjE; simp add: alts_m_def alts_d_def render_field_def py_digit_def)+

lemma month_unfold:
  "re_match rt (DirM # ts) s ymd =
     concat (map (\<lambda>(v, r). re_match rt ts r (fst ymd, v, snd (snd ymd))) (alts_m s))"
  by simp

lemma match_compact:
  assumes "valid_ymd y m d"
  shows "\<exists>m' d'. match_tokens rt [DirY, DirM, DirD]
                    (render_year y @ render_field pm m @ render_field pd d)
                  = Inr (Date (ymd2ord y m' d'))
           \<and> (pm \<or> m \<noteq> 1 \<or> (\<not> (pd \<and> d < 10) \<and> \<not> (11 \<le> d \<and> d \<le> 19)
                 \<and> \<not> (21 \<le> d \<and> d \<le> 29)) \<longrightarrow> m' = m \<and> d' = d)"
proof -
  note v = valid_ymdD[OF assms]
  consider "pm \<or> 10 \<le> m" | "\<not> pm" "2 \<le> m" "m \<le> 9" | "\<not> pm" "m = 1"
    using v(3) by fastforce
  then show ?thesis
  proof cases
    case 1
    from month_two_chars[OF v(3,4) 1] obtain ms where
      ms: "alts_m (render_field pm m @ render_field pd d) = (m, render_field pd d) # ms"
      by blast
    from day_at_end[OF v(5,6)] obtain xs where
      xs: "re_match rt [DirD] (render_field pd d) (y, m, 1) = ((y, m, d), []) # xs"
      by fastforce
    have "match_tokens rt [DirY, DirM, DirD]
            (render_year y @ render_field pm m @ render_field pd d) = Inr (Date (ymd2ord y m d))"
      by (simp del: re_match.simps
            add: match_tokens_def year_then[OF v(1,2)] month_unfold ms xs v(7))
    then show ?thesis by blast
  next
    case 2
    from day_at_end[OF v(5,6)] obtain xs where
      xs: "re_match rt [DirD] (render_field pd d) (y, m, 1) = ((y, m, d), []) # xs"
      by fastforce
    have "match_tokens rt [DirY, DirM, DirD]
            (render_year y @ render_field pm m @ render_field pd d) = Inr (Date (ymd2ord y m d))"
      using 2(1)
      by (simp del: re_match.simps
            add: match_tokens_def year_then[OF v(1,2)] month_unfold
              month_one_char[OF 2(2,3)] xs v(7))
    then show ?thesis by blast
  next
    case 3
    define md :: "int \<times> int" where "md = (if pd \<and> d < 10 then (10, d)
                else if 11 \<le> d \<and> d \<le> 19 then (11, d - 10)
                else if 21 \<le> d \<and> d \<le> 29 then (12, d - 20)
                else (1, d))"
    obtain m' d' where md: "md = (m', d')" by (cases md)
    from january_compact[OF v(5,6), of rt pd "(y, 1, 1)"] obtain xs where
      xs: "re_match rt [DirM, DirD] (49 # render_field pd d) (y, 1, 1)
             = ((y, m', d'), []) # xs"
      unfolding md_def[symmetric] md by auto
    have r: "render_field pm m = [49]" using 3 by (simp add: render_field_def)
    have ok: "mk_date y m' d' = Inr (Date (ymd2ord y m' d'))"
      using v(1,2,5) v(7) 3(2) md
      by (auto simp: md_def mk_date_def days_in_month_def DAYS_IN_MONTH_def split: if_splits)
    have "match_tokens rt [DirY, DirM, DirD]
            (render_year y @ render_field pm m @ render_field pd d)
          = Inr (Date (ymd2ord y m' d'))"
      by (simp del: re_match.simps add: match_tokens_def year_then[OF v(1,2)] r xs ok)
    moreover have "\<not> (pd \<and> d < 10) \<and> \<not> (11 \<le> d \<and> d \<le> 19) \<and> \<not> (21 \<le> d \<and> d \<le> 29)
                     \<Longrightarrow> m' = m \<and> d' = d"
      using 3(2) md by (auto simp: md_def split: if_splits)
    ultimately show ?thesis using 3 by blast
  qed
qed

lemma parse_formats_first:
  "i < length fmts \<Longrightarrow> strptime rt s (fmts ! i) = Inr dt
     \<Longrightarrow> (\<forall>j<i. strptime rt s (fmts ! j) = Inl ValueError)
     \<Longrightarrow> parse_formats rt s fmts = Inr (Some dt)"
proof (induction fmts arbitrary: i)
  case Nil
  then show ?case by simp
next
  case (Cons fmt fmts)
  show ?case
  proof (cases i)
    case 0
    with Cons.prems show ?thesis by simp
  next
    case (Suc k)
    with Cons.prems have "strptime rt s fmt = Inl ValueError" by auto
    moreover have "parse_formats rt s fmts = Inr (Some dt)"
      using Cons.prems Suc by (intro Cons.IH[of k]) auto
    ultimately show ?thesis by simp
  qed
qed

lemma parse_formats_none:
  "(\<forall>fmt\<in>set fmts. strptime rt s fmt = Inl ValueError) \<Longrightarrow> parse_formats rt s fmts = Inr None"
  by (induction fmts) simp_all

lemma parse_rendered:
  assumes "valid_ymd y m d"
  shows "\<exists>m' d'. parse_formats rt (render_date sty pm pd y m d) formats
                   = Inr (Some (Date (ymd2ord y m' d')))
           \<and> (sty \<noteq> Compact \<or> pm \<or> m \<noteq> 1
                \<or> (\<not> (pd \<and> d < 10) \<and> \<not> (11 \<le> d \<and> d \<le> 19) \<and> \<not> (21 \<le> d \<and> d \<le> 29))
               \<longrightarrow> m' = m \<and> d' = d)"
proof -
  note v = valid_ymdD[OF assms]
  show ?thesis
  proof (cases sty)
    case Dashes
    then have "parse_formats rt (render_date sty pm pd y m d) formats
                 = Inr (Some (Date (ymd2ord y m d)))"
      by (simp add: parse_formats_formats render_date_def match_separated[OF assms])
    then show ?thesis by blast
  next
    case Underscores
    then have "parse_formats rt (render_date sty pm pd y m d) formats
                 = Inr (Some (Date (ymd2ord y m d)))"
      by (simp add: parse_formats_formats render_date_def match_separated[OF assms]
            match_wrong_literal[OF v(1,2)])
    then show ?thesis by blast
  next
    case Compact
    have "1 \<le> m" "m \<le> 31" using v(3,4) by auto
    from render_field_hd[OF this, of pm] obtain x r where
      x: "render_field pm m = x # r" "48 \<le> x" "x \<le> 57"
      by blast
    then have ne: "x \<noteq> 45" "x \<noteq> 95" by auto
    have t: "render_date sty pm pd y m d = render_year y @ x # (r @ render_field pd d)"
      using Compact x(1) by (simp add: render_date_def)
    from match_compact[OF assms, of rt pm pd] obtain m' d' where
      c: "match_tokens rt [DirY, DirM, DirD]
            (render_year y @ x # (r @ render_field pd d)) = Inr (Date (ymd2ord y m' d'))"
         "pm \<or> m \<noteq> 1 \<or> (\<not> (pd \<and> d < 10) \<and> \<not> (11 \<le> d \<and> d \<le> 19)
             \<and> \<not> (21 \<le> d \<and> d \<le> 29)) \<longrightarrow> m' = m \<and> d' = d"
      unfolding x(1) by auto
    have "parse_formats rt (render_date sty pm pd y m d) formats
            = Inr (Some (Date (ymd2ord y m' d')))"
      unfolding t
      by (simp add: parse_formats_formats match_wrong_literal[OF v(1,2)] ne c(1))
    with c(2) Compact show ?thesis by blast
  next
    case Chinese
    then have "parse_formats rt (render_date sty pm pd y m d) formats
                 = Inr (Some (Date (ymd2ord y m d)))"
      by (simp add: parse_formats_formats render_date_def match_chinese[OF assms]
            match_wrong_literal[OF v(1,2)] match_compact_on_chinese[OF v(1,2)])
    then show ?thesis by blast
  qed
qed

lemmas parse_eval = strptime_def match_tokens_def formats_def ascii_def cons_tok_def
  alts_Y_def alts_m_def alts_d_def py_digit_def plain_runtime_def mk_date_def
  days_in_month_def is_leap_def DAYS_IN_MONTH_def DAYS_BEFORE_MONTH_def ymd2ord_def
  days_before_year_def days_before_month_def Let_def

lemma sample_date:
  "valid_ymd 2026 2 25" "ymd2ord 2026 2 25 = 739672"
  "render_date Underscores False False 2026 2 25 = ascii ''2026_2_25''"
  "render_date Dashes True True 2026 2 25 = ascii ''2026-02-25''"
  by (simp_all add: valid_ymd_def render_date_def render_year_def render_field_def parse_eval)

lemma format_error_lists_formats:
  "FORMAT_ERROR =
     [26085, 26399, 26684, 24335, 38169, 35823, 65292, 25903, 25345, 26684, 24335, 65306]
     @ render_date Dashes True True 2026 2 25 @ [12289]
     @ render_date Underscores True True 2026 2 25 @ [12289]
     @ render_date Compact True True 2026 2 25 @ [12289]
     @ render_date Chinese True True 2026 2 25 @ [31561]"
  by (simp add: FORMAT_ERROR_def render_date_def render_year_def render_field_def ascii_def)

text \<open>
  In the compact format a month written without padding is not always read as it was
  written: \<open>2026111\<close>, which writes 11 January 2026 without padding, is read as
  1 November 2026.
\<close>

lemma compact_text_read_as_november:
  "render_date Compact False False 2026 1 11 = ascii ''2026111''"
  "parse_formats rt (ascii ''2026111'') formats = Inr (Some (Date (ymd2ord 2026 11 1)))"
  by (simp_all add: render_date_def render_year_def render_field_def parse_formats_formats
        match_tokens_def ascii_def alts_Y_def alts_m_def alts_d_def py_digit_def mk_date_def
        days_in_month_def DAYS_IN_MONTH_def)

text \<open>
  C9.  A valid date written in one of the four formats, with the month and the day
  padded or not, is parsed by the loop over the formats of \<open>check_date\<close>, whatever the
  runtime; the date parsed is the date written, except in the compact format for
  January written as \<open>1\<close> before a padded day below ten or a day from 11 to 19 or from
  21 to 29, where the text is the compact writing of another date too.
  \<open>2026_2_25\<close> and \<open>2026-02-25\<close> parse to the same date, 25 February 2026.
  The first format that parses decides the result.  A text that no format parses gives
  the error 400 whose message lists one example of each of the four formats.
\<close>

theorem check_date_accepts_formats:
  "(valid_ymd y m d \<longrightarrow>
      (\<exists>parsed. parse_formats rt (render_date sty pm pd y m d) formats = Inr (Some parsed))
      \<and> (sty \<noteq> Compact \<or> pm \<or> m \<noteq> 1
           \<or> (\<not> (pd \<and> d < 10) \<and> \<not> (11 \<le> d \<and> d \<le> 19) \<and> \<not> (21 \<le> d \<and> d \<le> 29))
          \<longrightarrow> parse_formats rt (render_date sty pm pd y m d) formats
                = Inr (Some (Date (ymd2ord y m d)))))
   \<and> parse_formats rt (ascii ''2026_2_25'') formats = Inr (Some (Date 739672))
   \<and> parse_formats rt (ascii ''2026-02-25'') formats = Inr (Some (Date 739672))
   \<and> isoformat (Date 739672) = ascii ''2026-02-25''
   \<and> (i < length fmts \<and> strptime rt s (fmts ! i) = Inr dt
        \<and> (\<forall>j<i. strptime rt s (fmts ! j) = Inl ValueError)
       \<longrightarrow> parse_formats rt s fmts = Inr (Some dt))
   \<and> ((\<forall>fmt\<in>set formats. strptime rt s fmt = Inl ValueError)
       \<longrightarrow> check_date codec rt src f today s = Inl (HTTPException 400 FORMAT_ERROR))
   \<and> FORMAT_ERROR =
       [26085, 26399, 26684, 24335, 38169, 35823, 65292, 25903, 25345, 26684, 24335, 65306]
       @ render_date Dashes True True 2026 2 25 @ [12289]
       @ render_date Underscores True True 2026 2 25 @ [12289]
       @ render_date Compact True True 2026 2 25 @ [12289]
       @ render_date Chinese True True 2026 2 25 @ [31561]"
proof (intro conjI impI)
  assume v: "valid_ymd y m d"
  from parse_rendered[OF v, of rt sty pm pd]
  show "\<exists>parsed. parse_formats rt (render_date sty pm pd y m d) formats = Inr (Some parsed)"
    by blast
next
  assume v: "valid_ymd y m d"
    and e: "sty \<noteq> Compact \<or> pm \<or> m \<noteq> 1
           \<or> (\<not> (pd \<and> d < 10) \<and> \<not> (11 \<le> d \<and> d \<le> 19) \<and> \<not> (21 \<le> d \<and> d \<le> 29))"
  from parse_rendered[OF v, of rt sty pm pd] e
  show "parse_formats rt (render_date sty pm pd y m d) formats
          = Inr (Some (Date (ymd2ord y m d)))"
    by auto
next
  from parse_rendered[OF sample_date(1), of rt Underscores False False]
  show "parse_formats rt (ascii ''2026_2_25'') formats = Inr (Some (Date 739672))"
    by (auto simp: sample_date)
next
  from parse_rendered[OF sample_date(1), of rt Dashes True True]
  show "parse_formats rt (ascii ''2026-02-25'') formats = Inr (Some (Date 739672))"
    by (auto simp: sample_date)
next
  show "isoformat (Date 739672) = ascii ''2026-02-25''"
    by (simp add: date_eval cong: prod.case_cong_weak let_weak_cong)
next
  assume "i < length fmts \<and> strptime rt s (fmts ! i) = Inr dt
        \<and> (\<forall>j<i. strptime rt s (fmts ! j) = Inl ValueError)"
  then show "parse_formats rt s fmts = Inr (Some dt)"
    using parse_formats_first[of i fmts rt s dt] by blast
next
  assume "\<forall>fmt\<in>set formats. strptime rt s fmt = Inl ValueError"
  then have "parse_formats rt s formats = Inr None" by (rule parse_formats_none)
  then show "check_date codec rt src f today s = Inl (HTTPException 400 FORMAT_ERROR)"
    by (simp add: check_date_def)
next
  show "FORMAT_ERROR =
       [26085, 26399, 26684, 24335, 38169, 35823, 65292, 25903, 25345, 26684, 24335, 65306]
       @ render_date Dashes True True 2026 2 25 @ [12289]
       @ render_date Underscores True True 2026 2 25 @ [12289]
       @ render_date Compact True True 2026 2 25 @ [12289]
       @ render_date Chinese True True 2026 2 25 @ [31561]"
    by (rule format_error_lists_formats)
qed

lemma sample_underscore_formats:
  "strptime plain_runtime (ascii ''2026_2_25'') (formats ! 0) = Inl ValueError"
  "strptime plain_runtime (ascii ''2026_2_25'') (formats ! 1) = Inl ValueError"
  "strptime plain_runtime (ascii ''2026_2_25'') (formats ! 2) = Inr (Date 739672)"
  by (simp_all add: parse_eval)

lemma sample_unparseable:
  "\<forall>fmt\<in>set formats. strptime plain_runtime (ascii ''25-02-2026'') fmt = Inl ValueError"
  by (simp add: parse_eval)

text \<open>
  25 February 2026 in the Chinese format without padding; \<open>2026_2_25\<close>, which the
  third format is the first to parse; and \<open>25-02-2026\<close>, which no format parses.
\<close>

theorem check_date_accepts_formats_witness:
  "parse_formats plain_runtime (render_date Chinese False False 2026 2 25) formats
     = Inr (Some (Date (ymd2ord 2026 2 25)))
   \<and> parse_formats plain_runtime (ascii ''2026_2_25'') formats = Inr (Some (Date 739672))
   \<and> check_date sample_codec plain_runtime calendar_2026 sample_file (Date 739657)
        (ascii ''25-02-2026'') = Inl (HTTPException 400 FORMAT_ERROR)"
proof -
  have j: "\<forall>j<2. strptime plain_runtime (ascii ''2026_2_25'') (formats ! j) = Inl ValueError"
  proof (intro allI impI)
    fix j :: nat assume "j < 2"
    then have "j = 0 \<or> j = 1" by auto
    then show "strptime plain_runtime (ascii ''2026_2_25'') (formats ! j) = Inl ValueError"
      using sample_underscore_formats(1,2) by auto
  qed
  have l: "2 < length formats" by (simp add: formats_def)
  from check_date_accepts_formats[of 2026 2 25 plain_runtime Chinese False False
      2 formats "ascii ''2026_2_25''" "Date 739672"] sample_date(1) l j
    sample_underscore_formats(3)
  have a: "parse_formats plain_runtime (render_date Chinese False False 2026 2 25) formats
             = Inr (Some (Date (ymd2ord 2026 2 25)))"
    and b: "parse_formats plain_runtime (ascii ''2026_2_25'') formats = Inr (Some (Date 739672))"
    by simp_all
  from check_date_accepts_formats[of 2026 2 25 plain_runtime Chinese False False
      0 formats "ascii ''25-02-2026''" "Date 739672" sample_codec calendar_2026 sample_file
      "Date 739657"] sample_unparseable
  have "check_date sample_codec plain_runtime calendar_2026 sample_file (Date 739657)
        (ascii ''25-02-2026'') = Inl (HTTPException 400 FORMAT_ERROR)"
    by blast
  with a b show ?thesis by blast
qed

end
